theory Spec2Isabelle
  imports Main "HOL-Library.Word"
begin

section \<open>The file bridge of libuv-java: \<^verbatim>\<open>src/main/native/file.cpp\<close>\<close>

text \<open>
  The native layer of \<^verbatim>\<open>net.java.libuv.handles.Files\<close>: the per-call
  \<^verbatim>\<open>FileRequest\<close>, the \<^verbatim>\<open>FileCallbacks\<close> dispatcher with its two
  \<^verbatim>\<open>fs_cb\<close> overloads and \<^verbatim>\<open>build_stats\<close>, the completion hook
  \<^verbatim>\<open>_fs_cb\<close>, and the JNI entry points that the properties below need.

  The JVM (reached through \<^verbatim>\<open>JNIEnv\<close>) and libuv are external: the JNI functions
  are modelled by their documented behaviour, and what libuv reports (return code,
  result, pointer, bytes written) is an argument of the model. The static initialiser
  is assumed to have run, so \<^verbatim>\<open>assert(_env)\<close> and the cached class and method ids
  hold, and \<^verbatim>\<open>new\<close> of a non-negative size is assumed to succeed.
\<close>

subsection \<open>Machine types\<close>

type_synonym jbyte = "8 word"
type_synonym jint = "32 word"
type_synonym jlong = "64 word"
type_synonym ssize_t = "64 word"
type_synonym objref = nat

text \<open>\<^verbatim>\<open>static_cast<jsize>(x)\<close> and \<^verbatim>\<open>(jsize) x\<close> of a 64-bit value: the low 32 bits.\<close>

definition to_jsize :: "64 word \<Rightarrow> jint" where
  "to_jsize x = ucast x"

text \<open>The range of a \<^verbatim>\<open>jlong\<close>, a signed 64-bit integer.\<close>

definition fits_jlong :: "int \<Rightarrow> bool" where
  "fits_jlong k = (- (2 ^ 63) \<le> k \<and> k < 2 ^ 63)"

text \<open>
  \<^verbatim>\<open>uv_statbuf_t\<close> is \<^verbatim>\<open>struct stat\<close>; the field widths are those of 64-bit
  Linux, where \<^verbatim>\<open>time_t\<close> is a signed 64-bit integer.
\<close>

record uv_statbuf_t =
  st_dev :: "64 word"
  st_ino :: "64 word"
  st_mode :: "32 word"
  st_nlink :: "64 word"
  st_uid :: "32 word"
  st_gid :: "32 word"
  st_rdev :: "64 word"
  st_size :: "64 word"
  st_blksize :: "64 word"
  st_blocks :: "64 word"
  st_atime :: "64 word"
  st_mtime :: "64 word"
  st_ctime :: "64 word"

text \<open>
  \<^verbatim>\<open>net.java.libuv.handles.Stats\<close>, by the constructor signature
  \<^verbatim>\<open>(IIIIIIIJIJJJJ)V\<close> that \<^verbatim>\<open>static_initialize\<close> looks up: seven ints, a long,
  an int and four longs.
\<close>

record Stats =
  stats_dev :: jint
  stats_ino :: jint
  stats_mode :: jint
  stats_nlink :: jint
  stats_uid :: jint
  stats_gid :: jint
  stats_rdev :: jint
  stats_size :: jlong
  stats_blksize :: jint
  stats_blocks :: jlong
  stats_atime :: jlong
  stats_mtime :: jlong
  stats_ctime :: jlong

subsection \<open>Java values, the JVM state and native buffers\<close>

datatype jthrowable =
    UvException jint "string option" "string option" "string option"
  | ArrayIndexOutOfBoundsException
  | NegativeArraySizeException

datatype jobject =
    JNull
  | JInteger jint
  | JLong jlong
  | JString string
  | JStats Stats
  | JByteArray objref
  | JThrowable jthrowable
  | JObjectArray "jobject list"
  | JIndeterminate

datatype uv_fs_type =
    UV_FS_UNKNOWN | UV_FS_CUSTOM | UV_FS_OPEN | UV_FS_CLOSE | UV_FS_READ | UV_FS_WRITE
  | UV_FS_SENDFILE | UV_FS_STAT | UV_FS_LSTAT | UV_FS_FSTAT | UV_FS_FTRUNCATE
  | UV_FS_UTIME | UV_FS_FUTIME | UV_FS_CHMOD | UV_FS_FCHMOD | UV_FS_FSYNC
  | UV_FS_FDATASYNC | UV_FS_UNLINK | UV_FS_RMDIR | UV_FS_MKDIR | UV_FS_RENAME
  | UV_FS_READDIR | UV_FS_LINK | UV_FS_SYMLINK | UV_FS_READLINK | UV_FS_CHOWN
  | UV_FS_FCHOWN

text \<open>
  What the hook does that is visible from outside, in order: the two callback entry
  points of the Java \<^verbatim>\<open>Files\<close> instance bound to a \<^verbatim>\<open>FileCallbacks\<close> (named by
  its address), \<^verbatim>\<open>uv_fs_req_cleanup\<close>, \<^verbatim>\<open>delete(req)\<close> and the destructor of
  a \<^verbatim>\<open>FileRequest\<close> (named by its callback id).
\<close>

datatype event =
    Callback_1arg jlong uv_fs_type jint jobject
  | Callback_narg jlong uv_fs_type jint jobject
  | Uv_fs_req_cleanup
  | Delete_req
  | Delete_FileRequest jint

record jni_state =
  heap :: "objref \<Rightarrow> jbyte list option"
  global_refs :: "objref list"
  pending :: "jthrowable option"
  trace :: "event list"

text \<open>
  A native byte buffer: the size it was allocated with and the bytes found at its
  address, byte \<open>i\<close> at \<open>base + i\<close>. An index at or beyond \<open>alloc\<close> lies outside
  the allocation; C leaves a read or write there undefined, and a copy or a store
  that would reach it is the fault \<open>OutOfBounds\<close>.
\<close>

record native_buf =
  alloc :: nat
  bytes :: "nat \<Rightarrow> jbyte"

datatype fault = AssertionFailed | SegFault | BadAlloc | WrongPointer | OutOfBounds

text \<open>\<^verbatim>\<open>new jbyte[n]\<close> for \<open>n \<ge> 0\<close>: \<open>n\<close> bytes, not initialised.\<close>

definition new_jbyte_array :: "(nat \<Rightarrow> jbyte) \<Rightarrow> nat \<Rightarrow> native_buf" where
  "new_jbyte_array garbage n = \<lparr>alloc = n, bytes = garbage\<rparr>"

text \<open>The native engine stores \<open>data\<close> at the start of a buffer it was handed.\<close>

definition engine_store :: "jbyte list \<Rightarrow> native_buf \<Rightarrow> native_buf" where
  "engine_store data buf =
     buf\<lparr>bytes := (\<lambda>i. if i < length data then data ! i else bytes buf i)\<rparr>"

subsection \<open>JNI functions\<close>

text \<open>
  \<^verbatim>\<open>SetByteArrayRegion(array, start, len, buf)\<close>: raises
  \<^verbatim>\<open>ArrayIndexOutOfBoundsException\<close> (left pending, nothing copied) when the region
  is not inside the array, and copies \<open>len\<close> bytes from \<open>buf\<close> otherwise. A null
  array, or a null \<open>buf\<close> with bytes to copy, is a crash; a \<open>buf\<close> allocated with
  fewer than \<open>len\<close> bytes is read past its end.
\<close>

definition SetByteArrayRegion ::
  "jni_state \<Rightarrow> objref option \<Rightarrow> jint \<Rightarrow> jint \<Rightarrow> native_buf option \<Rightarrow> fault + jni_state" where
  "SetByteArrayRegion vm array start len buf =
     (case array of
        None \<Rightarrow> Inl SegFault
      | Some a \<Rightarrow>
          (case heap vm a of
             None \<Rightarrow> Inl SegFault
           | Some dst \<Rightarrow>
               if sint start < 0 \<or> sint len < 0 \<or> int (length dst) < sint start + sint len
               then Inr (vm\<lparr>pending := Some ArrayIndexOutOfBoundsException\<rparr>)
               else if len = 0 then Inr vm
               else
                 (case buf of
                    None \<Rightarrow> Inl SegFault
                  | Some b \<Rightarrow>
                      if alloc b < nat (sint len) then Inl OutOfBounds
                      else
                        Inr (vm\<lparr>heap := (heap vm)(a \<mapsto>
                               take (nat (sint start)) dst
                               @ map (bytes b) [0..<nat (sint len)]
                               @ drop (nat (sint start) + nat (sint len)) dst)\<rparr>))))"

text \<open>
  \<^verbatim>\<open>GetByteArrayRegion(array, start, len, buf)\<close>: the same bounds check, and
  \<open>len\<close> bytes of the array from \<open>start\<close> written to the start of \<open>buf\<close>; a
  \<open>buf\<close> allocated with fewer than \<open>len\<close> bytes is written past its end.
\<close>

definition GetByteArrayRegion ::
  "jni_state \<Rightarrow> objref option \<Rightarrow> jint \<Rightarrow> jint \<Rightarrow> native_buf option
     \<Rightarrow> fault + (jni_state \<times> native_buf option)" where
  "GetByteArrayRegion vm array start len buf =
     (case array of
        None \<Rightarrow> Inl SegFault
      | Some a \<Rightarrow>
          (case heap vm a of
             None \<Rightarrow> Inl SegFault
           | Some src \<Rightarrow>
               if sint start < 0 \<or> sint len < 0 \<or> int (length src) < sint start + sint len
               then Inr (vm\<lparr>pending := Some ArrayIndexOutOfBoundsException\<rparr>, buf)
               else if len = 0 then Inr (vm, buf)
               else
                 (case buf of
                    None \<Rightarrow> Inl SegFault
                  | Some b \<Rightarrow>
                      if alloc b < nat (sint len) then Inl OutOfBounds
                      else
                        Inr (vm, Some (engine_store
                               (take (nat (sint len)) (drop (nat (sint start)) src)) b)))))"

text \<open>\<^verbatim>\<open>GetArrayLength(array)\<close>.\<close>

definition GetArrayLength :: "jni_state \<Rightarrow> objref option \<Rightarrow> fault + jint" where
  "GetArrayLength vm array =
     (case array of
        None \<Rightarrow> Inl SegFault
      | Some a \<Rightarrow> (case heap vm a of None \<Rightarrow> Inl SegFault | Some xs \<Rightarrow> Inr (of_nat (length xs))))"

text \<open>
  Modelled from the spec: \<^verbatim>\<open>NewException\<close> and \<^verbatim>\<open>ThrowException\<close> are declared in
  \<^verbatim>\<open>throw.h\<close>, which is not among the sources. By the call sites
  (\<^verbatim>\<open>ThrowException(env, code, "uv_fs_open", NULL, cpath)\<close>) the arguments are the
  native error code, the name of the failed call, a message and a path; the error
  object is built from the four, and \<^verbatim>\<open>ThrowException\<close> leaves it pending.
\<close>

definition NewException ::
  "jint \<Rightarrow> string option \<Rightarrow> string option \<Rightarrow> string option \<Rightarrow> jthrowable" where
  "NewException errorno syscall msg path = UvException errorno syscall msg path"

definition ThrowException ::
  "jni_state \<Rightarrow> jint \<Rightarrow> string option \<Rightarrow> string option \<Rightarrow> string option \<Rightarrow> jni_state" where
  "ThrowException vm errorno syscall msg path =
     vm\<lparr>pending := Some (NewException errorno syscall msg path)\<rparr>"

text \<open>
  A C string read at \<open>namebuf + pos\<close> (\<^verbatim>\<open>NewStringUTF\<close>, \<^verbatim>\<open>strlen\<close>): the bytes
  up to the next NUL. \<open>namebuf\<close> is the memory the pointer may read; running off its
  end without meeting a NUL is a crash.
\<close>

definition c_string_at :: "string \<Rightarrow> nat \<Rightarrow> fault + string" where
  "c_string_at namebuf pos =
     (if CHR 0x00 \<in> set (drop pos namebuf)
      then Inr (takeWhile (\<lambda>c. c \<noteq> CHR 0x00) (drop pos namebuf))
      else Inl SegFault)"

subsection \<open>\<^verbatim>\<open>FileRequest\<close>\<close>

record FileRequest =
  callback_ptr :: jlong
  callback_id :: jint
  read_buffer_offset :: jlong
  read_buffer :: "objref option"
  byte_array :: "native_buf option"

text \<open>The constructor; \<^verbatim>\<open>NewGlobalRef\<close> adds to the global references held.\<close>

definition new_FileRequest ::
  "(nat \<Rightarrow> jbyte) \<Rightarrow> jni_state \<Rightarrow> jlong \<Rightarrow> jint \<Rightarrow> objref option \<Rightarrow> jlong \<Rightarrow> jlong
     \<Rightarrow> jni_state \<times> FileRequest" where
  "new_FileRequest garbage vm ptr ident rbuf byte_array_size offset =
     (let ba = (if 0 < sint byte_array_size
                then Some (new_jbyte_array garbage (nat (sint byte_array_size)))
                else None)
      in case rbuf of
           None \<Rightarrow>
             (vm, \<lparr>callback_ptr = ptr, callback_id = ident, read_buffer_offset = offset,
                   read_buffer = None, byte_array = ba\<rparr>)
         | Some r \<Rightarrow>
             (vm\<lparr>global_refs := r # global_refs vm\<rparr>,
              \<lparr>callback_ptr = ptr, callback_id = ident, read_buffer_offset = offset,
               read_buffer = Some r, byte_array = ba\<rparr>))"

text \<open>The destructor: the scratch bytes are freed and the global reference deleted.\<close>

definition delete_FileRequest :: "jni_state \<Rightarrow> FileRequest \<Rightarrow> jni_state" where
  "delete_FileRequest vm request =
     (let vm1 = (case read_buffer request of
                   None \<Rightarrow> vm
                 | Some r \<Rightarrow> vm\<lparr>global_refs := remove1 r (global_refs vm)\<rparr>)
      in vm1\<lparr>trace := trace vm1 @ [Delete_FileRequest (callback_id request)]\<rparr>)"

definition get_array_region_from_bytes ::
  "jni_state \<Rightarrow> FileRequest \<Rightarrow> jint \<Rightarrow> fault + (jni_state \<times> jobject)" where
  "get_array_region_from_bytes vm request len =
     (case SetByteArrayRegion vm (read_buffer request)
             (to_jsize (read_buffer_offset request)) len (byte_array request) of
        Inl f \<Rightarrow> Inl f
      | Inr vm1 \<Rightarrow>
          Inr (vm1, case read_buffer request of None \<Rightarrow> JNull | Some r \<Rightarrow> JByteArray r))"

definition get_bytes_from_array_region ::
  "jni_state \<Rightarrow> FileRequest \<Rightarrow> objref option \<Rightarrow> jint \<Rightarrow> jint
     \<Rightarrow> fault + (jni_state \<times> FileRequest)" where
  "get_bytes_from_array_region vm request data len offset =
     (case GetByteArrayRegion vm data offset len (byte_array request) of
        Inl f \<Rightarrow> Inl f
      | Inr (vm1, ba) \<Rightarrow> Inr (vm1, request\<lparr>byte_array := ba\<rparr>))"

definition new_request ::
  "(nat \<Rightarrow> jbyte) \<Rightarrow> jni_state \<Rightarrow> jlong \<Rightarrow> jint \<Rightarrow> objref option \<Rightarrow> jlong \<Rightarrow> jlong
     \<Rightarrow> jni_state \<times> FileRequest" where
  "new_request garbage vm ptr ident rbuf byte_array_size offset =
     new_FileRequest garbage vm ptr ident rbuf byte_array_size offset"

text \<open>The three-argument overload: no buffer, no scratch bytes.\<close>

definition new_request0 :: "jni_state \<Rightarrow> jlong \<Rightarrow> jint \<Rightarrow> jni_state \<times> FileRequest" where
  "new_request0 vm ptr ident =
     new_request (\<lambda>_. 0) vm ptr ident None 0 0"

subsection \<open>\<^verbatim>\<open>FileCallbacks\<close>\<close>

text \<open>
  \<^verbatim>\<open>build_stats\<close>. \<open>posix\<close> says whether \<^verbatim>\<open>__POSIX__\<close> is defined. An argument
  passed for an \<^verbatim>\<open>I\<close> of the constructor signature is read as its low 32 bits.
  The three products are computed in \<^verbatim>\<open>time_t\<close>; the model wraps at 64 bits where C
  leaves the overflow undefined.
\<close>

definition build_stats :: "bool \<Rightarrow> uv_statbuf_t option \<Rightarrow> jobject" where
  "build_stats posix ptr =
     (case ptr of
        Some p \<Rightarrow>
          (let blksize = (if posix then ucast (st_blksize p) else 0);
               blocks = (if posix then st_blocks p else 0)
           in JStats \<lparr>stats_dev = ucast (st_dev p),
                      stats_ino = ucast (st_ino p),
                      stats_mode = st_mode p,
                      stats_nlink = ucast (st_nlink p),
                      stats_uid = st_uid p,
                      stats_gid = st_gid p,
                      stats_rdev = ucast (st_rdev p),
                      stats_size = st_size p,
                      stats_blksize = blksize,
                      stats_blocks = blocks,
                      stats_atime = st_atime p * 1000,
                      stats_mtime = st_mtime p * 1000,
                      stats_ctime = st_ctime p * 1000\<rparr>)
      | None \<Rightarrow> JNull)"

text \<open>
  The build: \<open>ndebug\<close> says whether \<^verbatim>\<open>NDEBUG\<close> is defined (asserts compiled out),
  \<open>posix\<close> whether \<^verbatim>\<open>__POSIX__\<close> is.
\<close>

record build =
  ndebug :: bool
  posix :: bool

text \<open>
  \<^verbatim>\<open>void *ptr\<close> of a finished request: null, a stat structure, or a character
  buffer. A cast to the other pointee is \<open>WrongPointer\<close>.
\<close>

datatype uv_ptr = NullPtr | StatPtr uv_statbuf_t | CharPtr string

definition stat_ptr :: "uv_ptr \<Rightarrow> fault + uv_statbuf_t option" where
  "stat_ptr ptr =
     (case ptr of NullPtr \<Rightarrow> Inr None | StatPtr s \<Rightarrow> Inr (Some s) | CharPtr _ \<Rightarrow> Inl WrongPointer)"

definition char_ptr :: "uv_ptr \<Rightarrow> fault + string option" where
  "char_ptr ptr =
     (case ptr of NullPtr \<Rightarrow> Inr None | CharPtr s \<Rightarrow> Inr (Some s) | StatPtr _ \<Rightarrow> Inl WrongPointer)"

text \<open>\<^verbatim>\<open>NewStringUTF(p)\<close>: null for a null pointer.\<close>

definition NewStringUTF :: "string option \<Rightarrow> fault + jobject" where
  "NewStringUTF p =
     (case p of
        None \<Rightarrow> Inr JNull
      | Some s \<Rightarrow> (case c_string_at s 0 of Inl f \<Rightarrow> Inl f | Inr name \<Rightarrow> Inr (JString name)))"

text \<open>
  The loop over the names of a \<^verbatim>\<open>readdir\<close> result, the same text in \<^verbatim>\<open>fs_cb\<close>
  and in the synchronous branch of \<^verbatim>\<open>_readdir\<close>:
  \<^verbatim>\<open>for (int i = 0; i < nnames; i++) { name = NewStringUTF(namebuf);
  SetObjectArrayElement(names, i, name); namebuf += strlen(namebuf) + 1; }\<close>
  (the \<^verbatim>\<open>#ifndef NDEBUG\<close> variant advances by the same amount and its assert
  always holds). \<open>pos\<close> is how far \<open>namebuf\<close> has advanced; the loop returns the
  array and the final \<open>pos\<close>.
\<close>

function readdir_loop ::
  "string option \<Rightarrow> int \<Rightarrow> int \<Rightarrow> nat \<Rightarrow> jobject list \<Rightarrow> fault + (jobject list \<times> nat)" where
  "readdir_loop namebuf nnames i pos names =
     (if i < nnames then
        (case namebuf of
           None \<Rightarrow> Inl SegFault
         | Some buf \<Rightarrow>
             (case c_string_at buf pos of
                Inl f \<Rightarrow> Inl f
              | Inr name \<Rightarrow>
                  readdir_loop namebuf nnames (i + 1) (pos + length name + 1)
                    (names[nat i := JString name])))
      else Inr (names, pos))"
  by pat_completeness auto
termination
  by (relation "measure (\<lambda>(namebuf, nnames, i, pos, names). nat (nnames - i))") auto

declare readdir_loop.simps [simp del]

text \<open>
  \<^verbatim>\<open>nnames = static_cast<int>(result); names = NewObjectArray(nnames, ...)\<close> and the
  loop. A negative size leaves \<^verbatim>\<open>NegativeArraySizeException\<close> pending and
  \<open>names\<close> null.
\<close>

definition readdir_names :: "jni_state \<Rightarrow> ssize_t \<Rightarrow> uv_ptr \<Rightarrow> fault + (jni_state \<times> jobject)" where
  "readdir_names vm result ptr =
     (case char_ptr ptr of
        Inl f \<Rightarrow> Inl f
      | Inr namebuf \<Rightarrow>
          (let nnames = sint (to_jsize result) in
           if nnames < 0 then Inr (vm\<lparr>pending := Some NegativeArraySizeException\<rparr>, JNull)
           else
             (case readdir_loop namebuf nnames 0 0 (replicate (nat nnames) JNull) of
                Inl f \<Rightarrow> Inl f
              | Inr (names, pos) \<Rightarrow> Inr (vm, JObjectArray names))))"

definition CallVoidMethod_1arg ::
  "jni_state \<Rightarrow> jlong \<Rightarrow> uv_fs_type \<Rightarrow> jint \<Rightarrow> jobject \<Rightarrow> jni_state" where
  "CallVoidMethod_1arg vm this fs_type ident arg =
     vm\<lparr>trace := trace vm @ [Callback_1arg this fs_type ident arg]\<rparr>"

definition CallVoidMethod_narg ::
  "jni_state \<Rightarrow> jlong \<Rightarrow> uv_fs_type \<Rightarrow> jint \<Rightarrow> jobject \<Rightarrow> jni_state" where
  "CallVoidMethod_narg vm this fs_type ident args =
     vm\<lparr>trace := trace vm @ [Callback_narg this fs_type ident args]\<rparr>"

text \<open>
  The \<^verbatim>\<open>switch\<close> of the success overload of \<^verbatim>\<open>fs_cb\<close>. A case ends in
  \<^verbatim>\<open>break\<close> with \<open>arg\<close> set, or calls the array-valued callback and returns. In the
  \<^verbatim>\<open>default\<close> case \<^verbatim>\<open>assert(0)\<close> aborts; with asserts compiled out control
  reaches the final call with \<open>arg\<close> never assigned.
\<close>

datatype switch_exit = Break jobject | Return jni_state

definition fs_cb_switch ::
  "build \<Rightarrow> jni_state \<Rightarrow> jlong \<Rightarrow> FileRequest \<Rightarrow> uv_fs_type \<Rightarrow> ssize_t \<Rightarrow> uv_ptr
     \<Rightarrow> fault + switch_exit" where
  "fs_cb_switch b vm this request fs_type result ptr =
     (case fs_type of
        UV_FS_CLOSE \<Rightarrow> Inr (Break JNull)
      | UV_FS_RENAME \<Rightarrow> Inr (Break JNull)
      | UV_FS_UNLINK \<Rightarrow> Inr (Break JNull)
      | UV_FS_RMDIR \<Rightarrow> Inr (Break JNull)
      | UV_FS_MKDIR \<Rightarrow> Inr (Break JNull)
      | UV_FS_FTRUNCATE \<Rightarrow> Inr (Break JNull)
      | UV_FS_FSYNC \<Rightarrow> Inr (Break JNull)
      | UV_FS_FDATASYNC \<Rightarrow> Inr (Break JNull)
      | UV_FS_LINK \<Rightarrow> Inr (Break JNull)
      | UV_FS_SYMLINK \<Rightarrow> Inr (Break JNull)
      | UV_FS_CHMOD \<Rightarrow> Inr (Break JNull)
      | UV_FS_FCHMOD \<Rightarrow> Inr (Break JNull)
      | UV_FS_CHOWN \<Rightarrow> Inr (Break JNull)
      | UV_FS_FCHOWN \<Rightarrow> Inr (Break JNull)
      | UV_FS_OPEN \<Rightarrow> Inr (Break (JInteger (ucast result)))
      | UV_FS_UTIME \<Rightarrow> Inr (Break (JLong result))
      | UV_FS_FUTIME \<Rightarrow> Inr (Break (JLong result))
      | UV_FS_WRITE \<Rightarrow> Inr (Break (JLong result))
      | UV_FS_READ \<Rightarrow>
          (case get_array_region_from_bytes vm request (to_jsize result) of
             Inl f \<Rightarrow> Inl f
           | Inr (vm1, buf) \<Rightarrow>
               Inr (Return (CallVoidMethod_narg vm1 this fs_type (callback_id request)
                              (JObjectArray [JLong result, buf]))))
      | UV_FS_STAT \<Rightarrow>
          (case stat_ptr ptr of Inl f \<Rightarrow> Inl f | Inr p \<Rightarrow> Inr (Break (build_stats (posix b) p)))
      | UV_FS_LSTAT \<Rightarrow>
          (case stat_ptr ptr of Inl f \<Rightarrow> Inl f | Inr p \<Rightarrow> Inr (Break (build_stats (posix b) p)))
      | UV_FS_FSTAT \<Rightarrow>
          (case stat_ptr ptr of Inl f \<Rightarrow> Inl f | Inr p \<Rightarrow> Inr (Break (build_stats (posix b) p)))
      | UV_FS_READLINK \<Rightarrow>
          (case char_ptr ptr of
             Inl f \<Rightarrow> Inl f
           | Inr p \<Rightarrow> (case NewStringUTF p of Inl f \<Rightarrow> Inl f | Inr s \<Rightarrow> Inr (Break s)))
      | UV_FS_READDIR \<Rightarrow>
          (case readdir_names vm result ptr of
             Inl f \<Rightarrow> Inl f
           | Inr (vm1, names) \<Rightarrow>
               Inr (Return (CallVoidMethod_narg vm1 this fs_type (callback_id request) names)))
      | _ \<Rightarrow> (if ndebug b then Inr (Break JIndeterminate) else Inl AssertionFailed))"

text \<open>\<^verbatim>\<open>fs_cb(request, fs_type, ssize_t result, void *ptr)\<close>.\<close>

definition fs_cb ::
  "build \<Rightarrow> jni_state \<Rightarrow> jlong \<Rightarrow> FileRequest \<Rightarrow> uv_fs_type \<Rightarrow> ssize_t \<Rightarrow> uv_ptr
     \<Rightarrow> fault + jni_state" where
  "fs_cb b vm this request fs_type result ptr =
     (case fs_cb_switch b vm this request fs_type result ptr of
        Inl f \<Rightarrow> Inl f
      | Inr (Return vm1) \<Rightarrow> Inr vm1
      | Inr (Break arg) \<Rightarrow>
          Inr (CallVoidMethod_1arg vm this fs_type (callback_id request) arg))"

text \<open>\<^verbatim>\<open>fs_cb(request, fs_type, int errorno, const char *path)\<close>.\<close>

definition fs_cb_error ::
  "jni_state \<Rightarrow> jlong \<Rightarrow> FileRequest \<Rightarrow> uv_fs_type \<Rightarrow> jint \<Rightarrow> string option \<Rightarrow> jni_state" where
  "fs_cb_error vm this request fs_type errorno path =
     (let error = JInteger (- 1);
          exception = JThrowable (NewException errorno None None path)
      in CallVoidMethod_narg vm this fs_type (callback_id request)
           (JObjectArray [error, exception]))"

subsection \<open>The completion hook \<^verbatim>\<open>_fs_cb\<close>\<close>

record uv_fs_t =
  req_data :: "FileRequest option"
  req_fs_type :: uv_fs_type
  req_result :: ssize_t
  req_errorno :: jint
  req_path :: "string option"
  req_ptr :: uv_ptr

definition uv_fs_req_cleanup :: "jni_state \<Rightarrow> jni_state" where
  "uv_fs_req_cleanup vm = vm\<lparr>trace := trace vm @ [Uv_fs_req_cleanup]\<rparr>"

definition delete_req :: "jni_state \<Rightarrow> jni_state" where
  "delete_req vm = vm\<lparr>trace := trace vm @ [Delete_req]\<rparr>"

text \<open>
  \<^verbatim>\<open>_fs_cb(uv_fs_t* req)\<close>; the engine passes the request it was given. A null
  \<^verbatim>\<open>req->data\<close> or callback pointer fails its assert, and is dereferenced when
  asserts are compiled out.
\<close>

definition fs_cb_hook :: "build \<Rightarrow> jni_state \<Rightarrow> uv_fs_t \<Rightarrow> fault + jni_state" where
  "fs_cb_hook b vm req =
     (case req_data req of
        None \<Rightarrow> Inl (if ndebug b then SegFault else AssertionFailed)
      | Some request \<Rightarrow>
          if callback_ptr request = 0
          then Inl (if ndebug b then SegFault else AssertionFailed)
          else
            (let cb = callback_ptr request in
             case (if req_result req = - 1
                   then Inr (fs_cb_error vm cb request (req_fs_type req) (req_errorno req)
                               (req_path req))
                   else fs_cb b vm cb request (req_fs_type req) (req_result req) (req_ptr req)) of
               Inl f \<Rightarrow> Inl f
             | Inr vm1 \<Rightarrow>
                 Inr (delete_FileRequest (delete_req (uv_fs_req_cleanup vm1)) request)))"

subsection \<open>The JNI entry points\<close>

text \<open>
  What a blocking call of the native engine reports: the \<^verbatim>\<open>int\<close> it returns,
  \<^verbatim>\<open>req.result\<close>, \<^verbatim>\<open>req.ptr\<close>, the bytes it stored in the buffer it was given,
  and \<^verbatim>\<open>uv_last_error(loop).code\<close>.
\<close>

record uv_sync =
  sync_r :: jint
  sync_result :: ssize_t
  sync_ptr :: uv_ptr
  sync_stored :: "jbyte list"
  last_error :: jint

text \<open>The call an entry point submits with \<^verbatim>\<open>_fs_cb\<close> as its completion hook.\<close>

datatype uv_call =
    Uv_fs_read jint "native_buf option" jlong jlong
  | Uv_fs_write jint "native_buf option" jlong jlong
  | Uv_fs_sendfile jint jint jlong jlong
  | Uv_fs_stat string
  | Uv_fs_lstat string
  | Uv_fs_fstat jint
  | Uv_fs_readdir string jint

text \<open>
  An entry point called with a callback id submits and returns; called with id 0 it
  blocks and returns the converted value.
\<close>

datatype 'a entry_exit = Submitted FileRequest uv_call | Returned 'a

definition submitted_request :: "fault + (jni_state \<times> 'a entry_exit) \<Rightarrow> FileRequest option" where
  "submitted_request x =
     (case x of Inr (vm, Submitted request call) \<Rightarrow> Some request | _ \<Rightarrow> None)"

definition submitted_call :: "fault + (jni_state \<times> 'a entry_exit) \<Rightarrow> uv_call option" where
  "submitted_call x =
     (case x of Inr (vm, Submitted request call) \<Rightarrow> Some call | _ \<Rightarrow> None)"

text \<open>The number of bytes a request's scratch buffer was allocated with; 0 if it has none.\<close>

definition scratch_size :: "FileRequest \<Rightarrow> nat" where
  "scratch_size request = (case byte_array request of None \<Rightarrow> 0 | Some buf \<Rightarrow> alloc buf)"

text \<open>
  The first \<open>n\<close> bytes of a request's scratch buffer; all its bytes if it has fewer
  than \<open>n\<close>.
\<close>

definition scratch_prefix :: "FileRequest \<Rightarrow> nat \<Rightarrow> jbyte list" where
  "scratch_prefix request n =
     (case byte_array request of
        None \<Rightarrow> []
      | Some buf \<Rightarrow> map (bytes buf) [0..<min n (alloc buf)])"

text \<open>
  \<^verbatim>\<open>Java_net_java_libuv_handles_Files__1read\<close>. In the blocking branch
  \<^verbatim>\<open>new jbyte[length - offset]\<close> of a negative size throws, and an engine that
  stores more bytes than the transient buffer was allocated with writes past its end.
\<close>

definition Files_read ::
  "(nat \<Rightarrow> jbyte) \<Rightarrow> uv_sync \<Rightarrow> jni_state \<Rightarrow> jint \<Rightarrow> objref option \<Rightarrow> jlong \<Rightarrow> jlong \<Rightarrow> jlong
     \<Rightarrow> jint \<Rightarrow> jlong \<Rightarrow> fault + (jni_state \<times> jint entry_exit)" where
  "Files_read garbage out vm fd buffer len offset position callback cb_ptr =
     (if callback \<noteq> 0 then
        (let buffer_size = len - offset;
             (vm1, request) = new_request garbage vm cb_ptr callback buffer buffer_size offset
         in Inr (vm1, Submitted request (Uv_fs_read fd (byte_array request) len position)))
      else if sint (len - offset) < 0 then Inl BadAlloc
      else
        (let base = new_jbyte_array garbage (nat (sint (len - offset)));
             r = sync_r out
         in if alloc base < length (sync_stored out) then Inl OutOfBounds
            else
              (let base1 = engine_store (sync_stored out) base
               in case SetByteArrayRegion vm buffer (to_jsize offset) (to_jsize len)
                         (Some base1) of
                    Inl f \<Rightarrow> Inl f
                  | Inr vm1 \<Rightarrow>
                      (let vm2 = uv_fs_req_cleanup vm1;
                           vm3 = (if sint r < 0
                                  then ThrowException vm2 (last_error out) (Some ''uv_fs_read'')
                                         None None
                                  else vm2)
                       in Inr (vm3, Returned r)))))"

text \<open>\<^verbatim>\<open>Java_net_java_libuv_handles_Files__1write\<close>.\<close>

definition Files_write ::
  "(nat \<Rightarrow> jbyte) \<Rightarrow> uv_sync \<Rightarrow> jni_state \<Rightarrow> jint \<Rightarrow> objref option \<Rightarrow> jlong \<Rightarrow> jlong \<Rightarrow> jlong
     \<Rightarrow> jint \<Rightarrow> jlong \<Rightarrow> fault + (jni_state \<times> jint entry_exit)" where
  "Files_write garbage out vm fd data len offset position callback cb_ptr =
     (if callback \<noteq> 0 then
        (case GetArrayLength vm data of
           Inl f \<Rightarrow> Inl f
         | Inr buffer_size \<Rightarrow>
             (let (vm1, request) = new_request garbage vm cb_ptr callback None (scast buffer_size) 0
              in case get_bytes_from_array_region vm1 request data
                        (to_jsize (scast buffer_size - offset)) (to_jsize offset) of
                   Inl f \<Rightarrow> Inl f
                 | Inr (vm2, request1) \<Rightarrow>
                     Inr (vm2, Submitted request1
                                 (Uv_fs_write fd (byte_array request1) len position))))
      else
        (case GetArrayLength vm data of
           Inl f \<Rightarrow> Inl f
         | Inr buffer_size \<Rightarrow>
             (let base = new_jbyte_array garbage (nat (sint buffer_size));
                  r = sync_r out
              in case GetByteArrayRegion vm data (to_jsize offset)
                        (to_jsize (scast buffer_size - offset)) (Some base) of
                   Inl f \<Rightarrow> Inl f
                 | Inr (vm1, base1) \<Rightarrow>
                     (let vm2 = uv_fs_req_cleanup vm1;
                          vm3 = (if sint r < 0
                                 then ThrowException vm2 (last_error out) (Some ''uv_fs_write'')
                                        None None
                                 else vm2)
                      in Inr (vm3, Returned r)))))"

text \<open>\<^verbatim>\<open>Java_net_java_libuv_handles_Files__1sendfile\<close>.\<close>

definition Files_sendfile ::
  "uv_sync \<Rightarrow> jni_state \<Rightarrow> jint \<Rightarrow> jint \<Rightarrow> jlong \<Rightarrow> jlong \<Rightarrow> jint \<Rightarrow> jlong
     \<Rightarrow> fault + (jni_state \<times> jint entry_exit)" where
  "Files_sendfile out vm out_fd in_fd offset len callback cb_ptr =
     (if callback \<noteq> 0 then
        (let (vm1, request) = new_request0 vm cb_ptr callback
         in Inr (vm1, Submitted request (Uv_fs_sendfile out_fd in_fd offset len)))
      else
        (let r = sync_r out;
             vm1 = uv_fs_req_cleanup vm;
             vm2 = (if sint r < 0
                    then ThrowException vm1 (last_error out) (Some ''uv_fs_sendfile'') None None
                    else vm1)
         in Inr (vm2, Returned r)))"

text \<open>
  \<^verbatim>\<open>Java_net_java_libuv_handles_Files__1stat\<close>, \<^verbatim>\<open>__1lstat\<close> and
  \<^verbatim>\<open>__1fstat\<close>: the blocking branch converts \<^verbatim>\<open>req.ptr\<close> first and looks at
  the return code afterwards.
\<close>

definition Files_stat ::
  "build \<Rightarrow> uv_sync \<Rightarrow> jni_state \<Rightarrow> string \<Rightarrow> jint \<Rightarrow> jlong
     \<Rightarrow> fault + (jni_state \<times> jobject entry_exit)" where
  "Files_stat b out vm cpath callback cb_ptr =
     (if callback \<noteq> 0 then
        (let (vm1, request) = new_request0 vm cb_ptr callback
         in Inr (vm1, Submitted request (Uv_fs_stat cpath)))
      else
        (case stat_ptr (sync_ptr out) of
           Inl f \<Rightarrow> Inl f
         | Inr p \<Rightarrow>
             (let stats = build_stats (posix b) p;
                  vm1 = uv_fs_req_cleanup vm;
                  vm2 = (if sint (sync_r out) < 0
                         then ThrowException vm1 (last_error out) (Some ''uv_fs_stat'') None
                                (Some cpath)
                         else vm1)
              in Inr (vm2, Returned stats))))"

definition Files_lstat ::
  "build \<Rightarrow> uv_sync \<Rightarrow> jni_state \<Rightarrow> string \<Rightarrow> jint \<Rightarrow> jlong
     \<Rightarrow> fault + (jni_state \<times> jobject entry_exit)" where
  "Files_lstat b out vm cpath callback cb_ptr =
     (if callback \<noteq> 0 then
        (let (vm1, request) = new_request0 vm cb_ptr callback
         in Inr (vm1, Submitted request (Uv_fs_lstat cpath)))
      else
        (case stat_ptr (sync_ptr out) of
           Inl f \<Rightarrow> Inl f
         | Inr p \<Rightarrow>
             (let stats = build_stats (posix b) p;
                  vm1 = uv_fs_req_cleanup vm;
                  vm2 = (if sint (sync_r out) < 0
                         then ThrowException vm1 (last_error out) (Some ''uv_fs_lstat'') None
                                (Some cpath)
                         else vm1)
              in Inr (vm2, Returned stats))))"

definition Files_fstat ::
  "build \<Rightarrow> uv_sync \<Rightarrow> jni_state \<Rightarrow> jint \<Rightarrow> jint \<Rightarrow> jlong
     \<Rightarrow> fault + (jni_state \<times> jobject entry_exit)" where
  "Files_fstat b out vm fd callback cb_ptr =
     (if callback \<noteq> 0 then
        (let (vm1, request) = new_request0 vm cb_ptr callback
         in Inr (vm1, Submitted request (Uv_fs_fstat fd)))
      else
        (case stat_ptr (sync_ptr out) of
           Inl f \<Rightarrow> Inl f
         | Inr p \<Rightarrow>
             (let stats = build_stats (posix b) p;
                  vm1 = uv_fs_req_cleanup vm;
                  vm2 = (if sint (sync_r out) < 0
                         then ThrowException vm1 (last_error out) (Some ''uv_fs_fstat'') None None
                         else vm1)
              in Inr (vm2, Returned stats))))"

text \<open>\<^verbatim>\<open>Java_net_java_libuv_handles_Files__1readdir\<close>.\<close>

definition Files_readdir ::
  "uv_sync \<Rightarrow> jni_state \<Rightarrow> string \<Rightarrow> jint \<Rightarrow> jint \<Rightarrow> jlong
     \<Rightarrow> fault + (jni_state \<times> jobject entry_exit)" where
  "Files_readdir out vm cpath flags callback cb_ptr =
     (if callback \<noteq> 0 then
        (let (vm1, request) = new_request0 vm cb_ptr callback
         in Inr (vm1, Submitted request (Uv_fs_readdir cpath flags)))
      else if 0 \<le> sint (sync_r out) then
        (case readdir_names vm (sync_result out) (sync_ptr out) of
           Inl f \<Rightarrow> Inl f
         | Inr (vm1, names) \<Rightarrow> Inr (uv_fs_req_cleanup vm1, Returned names))
      else
        Inr (uv_fs_req_cleanup
               (ThrowException vm (last_error out) (Some ''uv_fs_readdir'') None (Some cpath)),
             Returned JNull))"

text \<open>
  The native engine tags a request with the kind of the call that submitted it, and
  hands the hook that request with the \<^verbatim>\<open>FileRequest\<close> stored in
  \<^verbatim>\<open>req->data\<close> and the outcome filled in.
\<close>

definition fs_type_of :: "uv_call \<Rightarrow> uv_fs_type" where
  "fs_type_of call =
     (case call of
        Uv_fs_read _ _ _ _ \<Rightarrow> UV_FS_READ
      | Uv_fs_write _ _ _ _ \<Rightarrow> UV_FS_WRITE
      | Uv_fs_sendfile _ _ _ _ \<Rightarrow> UV_FS_SENDFILE
      | Uv_fs_stat _ \<Rightarrow> UV_FS_STAT
      | Uv_fs_lstat _ \<Rightarrow> UV_FS_LSTAT
      | Uv_fs_fstat _ \<Rightarrow> UV_FS_FSTAT
      | Uv_fs_readdir _ _ \<Rightarrow> UV_FS_READDIR)"

definition path_of :: "uv_call \<Rightarrow> string option" where
  "path_of call =
     (case call of
        Uv_fs_stat p \<Rightarrow> Some p
      | Uv_fs_lstat p \<Rightarrow> Some p
      | Uv_fs_readdir p _ \<Rightarrow> Some p
      | _ \<Rightarrow> None)"

definition completion ::
  "FileRequest \<Rightarrow> uv_call \<Rightarrow> ssize_t \<Rightarrow> jint \<Rightarrow> uv_ptr \<Rightarrow> uv_fs_t" where
  "completion request call result errorno ptr =
     \<lparr>req_data = Some request, req_fs_type = fs_type_of call, req_result = result,
      req_errorno = errorno, req_path = path_of call, req_ptr = ptr\<rparr>"

text \<open>The callbacks among the events of a trace.\<close>

fun is_callback :: "event \<Rightarrow> bool" where
  "is_callback (Callback_1arg _ _ _ _) = True"
| "is_callback (Callback_narg _ _ _ _) = True"
| "is_callback _ = False"

section \<open>Properties\<close>

subsection \<open>Casts and arithmetic that stay in range\<close>

lemma sint_times_1000:
  fixes t :: "64 word"
  assumes "fits_jlong (sint t * 1000)"
  shows "sint (t * 1000) = sint t * 1000"
proof -
  have "sint (t * 1000) = signed_take_bit 63 (sint t * sint (1000 :: 64 word))"
    by (simp add: sint_word_ariths)
  also have "sint (1000 :: 64 word) = 1000" by simp
  finally show ?thesis
    using assms by (simp add: fits_jlong_def signed_take_bit_int_eq_self)
qed

lemma uint_eq_sint:
  fixes x :: "64 word"
  assumes "0 \<le> sint x"
  shows "uint x = sint x"
proof -
  have "sint x < 2 ^ 64"
    using sint_lt [of x] by simp
  then show ?thesis
    using assms by (simp add: uint_sint take_bit_int_eq_self)
qed

lemma sint_to_jsize:
  assumes "0 \<le> sint x" and "sint x < 2 ^ 31"
  shows "sint (to_jsize x) = sint x"
proof -
  have "sint (to_jsize x) = signed_take_bit 31 (uint x)"
    by (simp add: to_jsize_def signed_ucast_eq)
  also have "\<dots> = signed_take_bit 31 (sint x)"
    using assms(1) by (simp add: uint_eq_sint)
  also have "\<dots> = sint x"
    using assms by (simp add: signed_take_bit_int_eq_self)
  finally show ?thesis .
qed

lemma sint_of_nat_jint:
  assumes "n < 2 ^ 31"
  shows "sint (of_nat n :: jint) = int n"
proof -
  have "sint (of_nat n :: jint) = signed_take_bit 31 (int n)"
    by (simp add: signed_of_nat)
  also have "\<dots> = int n"
    using assms by (simp add: signed_take_bit_int_eq_self)
  finally show ?thesis .
qed

lemma sint_scast_jlong:
  fixes w :: jint
  shows "sint (scast w :: jlong) = sint w"
proof -
  have "- (2 ^ 31) \<le> sint w" and "sint w < 2 ^ 31"
    using sint_ge [of w] sint_lt [of w] by simp_all
  then show ?thesis
    by (simp add: signed_scast_eq signed_take_bit_int_eq_self)
qed

lemma sint_minus_jlong:
  fixes a b :: jlong
  assumes "- (2 ^ 63) \<le> sint a - sint b" and "sint a - sint b < 2 ^ 63"
  shows "sint (a - b) = sint a - sint b"
  using assms by (simp add: sint_word_ariths signed_take_bit_int_eq_self)

subsection \<open>The Stat codec\<close>

text \<open>
  C7, as amended. For a non-null native stat structure \<^verbatim>\<open>build_stats\<close> produces a
  \<^verbatim>\<open>Stats\<close> object, and each of its three timestamps (access, modify, change)
  equals the native seconds timestamp times 1000 whenever that product is in the
  range of a Java \<^verbatim>\<open>long\<close>; zero and negative (pre-epoch) timestamps are covered.
\<close>

theorem build_stats_timestamps:
  "case build_stats px (Some p) of
     JStats s \<Rightarrow>
       (fits_jlong (sint (st_atime p) * 1000) \<longrightarrow>
          sint (stats_atime s) = sint (st_atime p) * 1000)
     \<and> (fits_jlong (sint (st_mtime p) * 1000) \<longrightarrow>
          sint (stats_mtime s) = sint (st_mtime p) * 1000)
     \<and> (fits_jlong (sint (st_ctime p) * 1000) \<longrightarrow>
          sint (stats_ctime s) = sint (st_ctime p) * 1000)
   | _ \<Rightarrow> False"
  by (simp add: build_stats_def Let_def sint_times_1000)

text \<open>
  A file last read one second before the epoch, modified at the epoch and changed in
  November 2023.
\<close>

theorem build_stats_timestamps_witness:
  "fits_jlong (sint (- 1 :: 64 word) * 1000)
   \<and> fits_jlong (sint (0 :: 64 word) * 1000)
   \<and> fits_jlong (sint (1700000000 :: 64 word) * 1000)
   \<and> (case build_stats True (Some \<lparr>st_dev = 2049, st_ino = 131, st_mode = 33188, st_nlink = 1,
          st_uid = 1000, st_gid = 1000, st_rdev = 0, st_size = 5, st_blksize = 4096,
          st_blocks = 8, st_atime = - 1, st_mtime = 0, st_ctime = 1700000000\<rparr>) of
         JStats s \<Rightarrow> sint (stats_atime s) = - 1000 \<and> sint (stats_mtime s) = 0
                       \<and> sint (stats_ctime s) = 1700000000000
       | _ \<Rightarrow> False)"
  using build_stats_timestamps [where px = True and p = "\<lparr>st_dev = 2049, st_ino = 131,
          st_mode = 33188, st_nlink = 1, st_uid = 1000, st_gid = 1000, st_rdev = 0, st_size = 5,
          st_blksize = 4096, st_blocks = 8, st_atime = - 1, st_mtime = 0,
          st_ctime = 1700000000\<rparr>"]
  by (simp add: fits_jlong_def build_stats_def)

text \<open>
  C7 as stated fails for a timestamp whose product with 1000 is outside the range of a
  \<^verbatim>\<open>long\<close>: for an access time of \<open>2 ^ 62\<close> seconds the \<^verbatim>\<open>Stats\<close> object does not
  hold \<open>2 ^ 62 * 1000\<close> (no \<^verbatim>\<open>long\<close> does; the wrapped product is 0).
\<close>

theorem build_stats_timestamp_overflow:
  "\<not> (case build_stats True (Some \<lparr>st_dev = 2049, st_ino = 131, st_mode = 33188, st_nlink = 1,
          st_uid = 1000, st_gid = 1000, st_rdev = 0, st_size = 5, st_blksize = 4096,
          st_blocks = 8, st_atime = 4611686018427387904, st_mtime = 0, st_ctime = 0\<rparr>) of
         JStats s \<Rightarrow> sint (stats_atime s) = sint (4611686018427387904 :: 64 word) * 1000
       | _ \<Rightarrow> False)"
  by (simp add: build_stats_def)

text \<open>
  C8. When the stat pointer is null \<^verbatim>\<open>build_stats\<close> returns null and raises
  nothing, on every path that reaches it: the blocking branches of \<^verbatim>\<open>_stat\<close>,
  \<^verbatim>\<open>_lstat\<close> and \<^verbatim>\<open>_fstat\<close>, which convert before they look at the return code
  (the only exception left pending is the one for a negative return code, thrown
  afterwards), and the success overload of \<^verbatim>\<open>fs_cb\<close> for the three stat kinds.
\<close>

theorem build_stats_null_on_every_path:
  "build_stats (posix b) None = JNull
   \<and> (sync_ptr out = NullPtr \<longrightarrow>
        Files_stat b out vm cpath 0 cbp =
          Inr (if sint (sync_r out) < 0
               then ThrowException (uv_fs_req_cleanup vm) (last_error out) (Some ''uv_fs_stat'')
                      None (Some cpath)
               else uv_fs_req_cleanup vm, Returned JNull)
      \<and> Files_lstat b out vm cpath 0 cbp =
          Inr (if sint (sync_r out) < 0
               then ThrowException (uv_fs_req_cleanup vm) (last_error out) (Some ''uv_fs_lstat'')
                      None (Some cpath)
               else uv_fs_req_cleanup vm, Returned JNull)
      \<and> Files_fstat b out vm fd 0 cbp =
          Inr (if sint (sync_r out) < 0
               then ThrowException (uv_fs_req_cleanup vm) (last_error out) (Some ''uv_fs_fstat'')
                      None None
               else uv_fs_req_cleanup vm, Returned JNull))
   \<and> fs_cb b vm this request UV_FS_STAT result NullPtr =
        Inr (CallVoidMethod_1arg vm this UV_FS_STAT (callback_id request) JNull)
   \<and> fs_cb b vm this request UV_FS_LSTAT result NullPtr =
        Inr (CallVoidMethod_1arg vm this UV_FS_LSTAT (callback_id request) JNull)
   \<and> fs_cb b vm this request UV_FS_FSTAT result NullPtr =
        Inr (CallVoidMethod_1arg vm this UV_FS_FSTAT (callback_id request) JNull)"
  by (simp add: build_stats_def Files_stat_def Files_lstat_def Files_fstat_def stat_ptr_def
        fs_cb_def fs_cb_switch_def Let_def)

text \<open>A blocking \<^verbatim>\<open>stat("missing")\<close> that fails with code 34 and leaves the pointer null.\<close>

theorem build_stats_null_on_every_path_witness:
  "sync_ptr \<lparr>sync_r = - 1, sync_result = - 1, sync_ptr = NullPtr, sync_stored = [],
             last_error = 34\<rparr> = NullPtr
   \<and> Files_stat \<lparr>ndebug = False, posix = True\<rparr>
        \<lparr>sync_r = - 1, sync_result = - 1, sync_ptr = NullPtr, sync_stored = [], last_error = 34\<rparr>
        \<lparr>heap = (\<lambda>_. None), global_refs = [], pending = None, trace = []\<rparr> ''missing'' 0 0 =
      Inr (\<lparr>heap = (\<lambda>_. None), global_refs = [],
            pending = Some (UvException 34 (Some ''uv_fs_stat'') None (Some ''missing'')),
            trace = [Uv_fs_req_cleanup]\<rparr>, Returned JNull)"
  using build_stats_null_on_every_path [where b = "\<lparr>ndebug = False, posix = True\<rparr>"
      and out = "\<lparr>sync_r = - 1, sync_result = - 1, sync_ptr = NullPtr, sync_stored = [],
                  last_error = 34\<rparr>"
      and vm = "\<lparr>heap = (\<lambda>_. None), global_refs = [], pending = None, trace = []\<rparr>"
      and cpath = "''missing''" and cbp = 0]
  by (simp add: ThrowException_def NewException_def uv_fs_req_cleanup_def)

subsection \<open>Byte copies across the boundary\<close>

lemma engine_store_prefix:
  assumes "n \<le> length xs"
  shows "map (bytes (engine_store xs b)) [0..<n] = take n xs"
  using assms by (auto simp: engine_store_def intro!: nth_equalityI)

lemma engine_store_Nil: "engine_store [] b = b"
  by (simp add: engine_store_def)

lemma SetByteArrayRegion_in_range:
  assumes "heap vm a = Some dst" and "0 \<le> sint start" and "0 \<le> sint len"
    and "sint start + sint len \<le> int (length dst)"
    and "nat (sint len) \<le> (case buf of None \<Rightarrow> 0 | Some b \<Rightarrow> alloc b)"
  shows "SetByteArrayRegion vm (Some a) start len buf =
     Inr (vm\<lparr>heap := (heap vm)(a \<mapsto>
            take (nat (sint start)) dst
            @ (case buf of None \<Rightarrow> [] | Some b \<Rightarrow> map (bytes b) [0..<nat (sint len)])
            @ drop (nat (sint start) + nat (sint len)) dst)\<rparr>)"
proof (cases "len = 0")
  case True
  then have "(heap vm)(a \<mapsto> take (nat (sint start)) dst
            @ (case buf of None \<Rightarrow> [] | Some b \<Rightarrow> map (bytes b) [0..<nat (sint len)])
            @ drop (nat (sint start) + nat (sint len)) dst) = heap vm"
    using assms(1) by (simp add: fun_upd_idem split: option.splits)
  then show ?thesis
    using True assms by (simp add: SetByteArrayRegion_def)
next
  case False
  then have "sint len \<noteq> 0"
    by (simp only: signed_eq_0_iff) simp
  with assms(3,5) obtain b where "buf = Some b" and "nat (sint len) \<le> alloc b"
    by (cases buf) auto
  with False show ?thesis
    using assms by (simp add: SetByteArrayRegion_def)
qed

lemma GetByteArrayRegion_in_range:
  assumes "heap vm a = Some src" and "0 \<le> sint start" and "0 \<le> sint len"
    and "sint start + sint len \<le> int (length src)" and "nat (sint len) \<le> alloc buf"
  shows "GetByteArrayRegion vm (Some a) start len (Some buf) =
     Inr (vm, Some (engine_store (take (nat (sint len)) (drop (nat (sint start)) src)) buf))"
proof (cases "len = 0")
  case True
  then show ?thesis
    using assms by (simp add: GetByteArrayRegion_def engine_store_Nil)
next
  case False
  then show ?thesis
    using assms by (simp add: GetByteArrayRegion_def)
qed

text \<open>
  The asynchronous branch of \<^verbatim>\<open>_write\<close> on an array \<open>src\<close> and an offset inside
  it: the scratch buffer has the size of the whole array (there is none for an empty
  array), and the stage is called with the array length minus the offset as its
  count, so it holds every byte of the array from \<open>offset\<close> on. The \<open>len\<close> of the
  call only reaches the native engine.
\<close>

lemma Files_write_async:
  assumes "callback \<noteq> 0" and "heap vm d = Some src"
    and "length src < 2 ^ 31" and "0 \<le> sint offset" and "sint offset \<le> int (length src)"
  shows "Files_write garbage out vm fd (Some d) len offset position callback cbp =
      Inr (vm, Submitted
        \<lparr>callback_ptr = cbp, callback_id = callback, read_buffer_offset = 0, read_buffer = None,
         byte_array = (if src = [] then None
                       else Some (engine_store (drop (nat (sint offset)) src)
                                    (new_jbyte_array garbage (length src))))\<rparr>
        (Uv_fs_write fd (if src = [] then None
                         else Some (engine_store (drop (nat (sint offset)) src)
                                      (new_jbyte_array garbage (length src)))) len position))"
proof -
  let ?size = "of_nat (length src) :: jint"
  have len: "GetArrayLength vm (Some d) = Inr ?size"
    using assms by (simp add: GetArrayLength_def)
  have size: "sint (scast ?size :: jlong) = int (length src)"
    using assms by (simp add: sint_scast_jlong sint_of_nat_jint)
  have count64: "sint ((scast ?size :: jlong) - offset) = int (length src) - sint offset"
    using assms size by (subst sint_minus_jlong) auto
  have count: "sint (to_jsize ((scast ?size :: jlong) - offset)) = int (length src) - sint offset"
    using assms count64 by (subst sint_to_jsize) auto
  have start: "sint (to_jsize offset) = sint offset"
    using assms by (intro sint_to_jsize) auto
  show ?thesis
  proof (cases "src = []")
    case True
    then have "sint (to_jsize ((scast ?size :: jlong) - offset)) = 0"
      using count assms(4,5) by simp
    then have zero: "to_jsize ((scast ?size :: jlong) - offset) = 0"
      by (simp only: signed_eq_0_iff)
    have "GetByteArrayRegion vm (Some d) (to_jsize offset) 0 None = Inr (vm, None)"
      using assms True start by (simp add: GetByteArrayRegion_def)
    then show ?thesis
      using assms(1) True zero
      by (simp add: Files_write_def len new_request_def new_FileRequest_def
            get_bytes_from_array_region_def Let_def)
  next
    case False
    have stage: "GetByteArrayRegion vm (Some d) (to_jsize offset)
          (to_jsize ((scast ?size :: jlong) - offset))
          (Some (new_jbyte_array garbage (length src))) =
        Inr (vm, Some (engine_store (drop (nat (sint offset)) src)
                         (new_jbyte_array garbage (length src))))"
      using assms count start
      by (subst GetByteArrayRegion_in_range [where src = src])
         (auto simp: new_jbyte_array_def)
    show ?thesis
      using assms(1) False
      by (simp add: Files_write_def len new_request_def new_FileRequest_def
            get_bytes_from_array_region_def size stage Let_def)
  qed
qed

text \<open>
  C6, as amended. An asynchronous write of an array \<open>src\<close> with an offset inside it
  stages, before submission, the \<open>length src - offset\<close> bytes of \<open>src\<close> from \<open>offset\<close>
  to its end at the start of a scratch buffer of \<open>length src\<close> bytes, whatever the
  \<open>len\<close> of the call; when \<open>offset + len\<close> is inside the array, the first \<open>len\<close>
  scratch bytes (those the engine is told to write) are the \<open>len\<close> bytes of \<open>src\<close>
  from \<open>offset\<close>.
\<close>

theorem write_stages_from_offset:
  assumes "callback \<noteq> 0" and "heap vm d = Some src"
    and "length src < 2 ^ 31" and "0 \<le> sint offset" and "sint offset \<le> int (length src)"
  shows "let request = \<lparr>callback_ptr = cbp, callback_id = callback, read_buffer_offset = 0,
                        read_buffer = None,
                        byte_array = (if src = [] then None
                                      else Some (engine_store (drop (nat (sint offset)) src)
                                                   (new_jbyte_array garbage (length src))))\<rparr>
     in Files_write garbage out vm fd (Some d) len offset position callback cbp =
          Inr (vm, Submitted request (Uv_fs_write fd (byte_array request) len position))
      \<and> map_option alloc (byte_array request) = (if src = [] then None else Some (length src))
      \<and> scratch_prefix request (length src - nat (sint offset)) = drop (nat (sint offset)) src
      \<and> (0 \<le> sint len \<and> sint offset + sint len \<le> int (length src) \<longrightarrow>
           scratch_prefix request (nat (sint len)) =
             take (nat (sint len)) (drop (nat (sint offset)) src))"
proof -
  have whole: "map (bytes (engine_store (drop (nat (sint offset)) src) b))
        [0..<length src - nat (sint offset)] = drop (nat (sint offset)) src" for b
    using engine_store_prefix [of "length src - nat (sint offset)" "drop (nat (sint offset)) src" b]
    by simp
  have part: "map (bytes (engine_store (drop (nat (sint offset)) src) b)) [0..<nat (sint len)] =
        take (nat (sint len)) (drop (nat (sint offset)) src)"
    if "0 \<le> sint len" and "sint offset + sint len \<le> int (length src)" for b
    using that assms(4) by (intro engine_store_prefix) auto
  have alloc: "alloc (engine_store xs (new_jbyte_array garbage n)) = n" for xs n
    by (simp add: engine_store_def new_jbyte_array_def)
  have inside: "min (nat (sint len)) (length src) = nat (sint len)"
    if "0 \<le> sint len" and "sint offset + sint len \<le> int (length src)"
    using that assms(4) by auto
  show ?thesis
    unfolding Let_def Files_write_async [OF assms]
    using whole part by (simp add: scratch_prefix_def alloc inside)
qed

text \<open>
  Five bytes, two of them to be written from offset 1: the scratch buffer has five
  bytes and holds the last four bytes of the array.
\<close>

theorem write_stages_from_offset_witness:
  "Files_write (\<lambda>_. 0) \<lparr>sync_r = 0, sync_result = 0, sync_ptr = NullPtr, sync_stored = [],
                       last_error = 0\<rparr>
      \<lparr>heap = (\<lambda>_. None)(0 \<mapsto> [1, 2, 3, 4, 5]), global_refs = [], pending = None,
       trace = []\<rparr> 3 (Some 0) 2 1 0 7 99 =
     Inr (\<lparr>heap = (\<lambda>_. None)(0 \<mapsto> [1, 2, 3, 4, 5]), global_refs = [], pending = None,
           trace = []\<rparr>,
          Submitted
            \<lparr>callback_ptr = 99, callback_id = 7, read_buffer_offset = 0, read_buffer = None,
             byte_array = Some (engine_store [2, 3, 4, 5] (new_jbyte_array (\<lambda>_. 0) 5))\<rparr>
            (Uv_fs_write 3 (Some (engine_store [2, 3, 4, 5] (new_jbyte_array (\<lambda>_. 0) 5))) 2 0))
   \<and> alloc (engine_store [2, 3, 4, 5] (new_jbyte_array (\<lambda>_. 0) 5)) = 5
   \<and> map (bytes (engine_store [2, 3, 4, 5] (new_jbyte_array (\<lambda>_. 0) 5))) [0..<4] = [2, 3, 4, 5]
   \<and> map (bytes (engine_store [2, 3, 4, 5] (new_jbyte_array (\<lambda>_. 0) 5))) [0..<2] = [2, 3]"
proof -
  have "(7 :: jint) \<noteq> 0"
    and "heap \<lparr>heap = (\<lambda>_. None)(0 \<mapsto> [1, 2, 3, 4, 5]), global_refs = [], pending = None,
               trace = []\<rparr> 0 = Some [1, 2, 3, 4, 5]"
    and "length [1, 2, 3, 4, 5 :: jbyte] < 2 ^ 31"
    and "0 \<le> sint (1 :: jlong)"
    and "sint (1 :: jlong) \<le> int (length [1, 2, 3, 4, 5 :: jbyte])"
    by simp_all
  from write_stages_from_offset [OF this, where garbage = "\<lambda>_. 0" and len = 2 and fd = 3
      and position = 0 and cbp = 99
      and out = "\<lparr>sync_r = 0, sync_result = 0, sync_ptr = NullPtr, sync_stored = [],
                  last_error = 0\<rparr>"]
  show ?thesis
    by (simp add: Let_def scratch_prefix_def engine_store_def new_jbyte_array_def
          eval_nat_numeral)
qed

text \<open>
  C6 as stated fails there: were exactly \<open>len = 2\<close> bytes placed, the third and fourth
  scratch bytes would still be what the allocation held (0 here); they are 4 and 5.
\<close>

theorem write_stages_more_than_length:
  "map_option (\<lambda>rq. scratch_prefix rq 4)
     (submitted_request
       (Files_write (\<lambda>_. 0) \<lparr>sync_r = 0, sync_result = 0, sync_ptr = NullPtr, sync_stored = [],
                           last_error = 0\<rparr>
          \<lparr>heap = (\<lambda>_. None)(0 \<mapsto> [1, 2, 3, 4, 5]), global_refs = [], pending = None,
           trace = []\<rparr> 3 (Some 0) 2 1 0 7 99)) = Some [2, 3, 4, 5]
   \<and> map (bytes (engine_store (take 2 (drop 1 [1, 2, 3, 4, 5])) (new_jbyte_array (\<lambda>_. 0) 5)))
       [0..<4] = [2, 3, 0, 0]"
  by (simp add: Files_write_async submitted_request_def scratch_prefix_def engine_store_def
        new_jbyte_array_def upt_rec)

subsection \<open>The asynchronous read\<close>

text \<open>
  The asynchronous branch of \<^verbatim>\<open>_read\<close>: the scratch buffer is allocated with
  \<open>len - offset\<close> bytes when that is positive and not at all otherwise, and the native
  engine is handed it together with \<open>len\<close> as the number of bytes to read.
\<close>

lemma Files_read_async:
  assumes "callback \<noteq> 0"
  shows "submitted_call (Files_read garbage out vm fd buffer len offset position callback cbp) =
       Some (Uv_fs_read fd
               (if 0 < sint (len - offset)
                then Some (new_jbyte_array garbage (nat (sint (len - offset)))) else None)
               len position)
     \<and> map_option byte_array
         (submitted_request
            (Files_read garbage out vm fd buffer len offset position callback cbp)) =
       Some (if 0 < sint (len - offset)
             then Some (new_jbyte_array garbage (nat (sint (len - offset)))) else None)"
  using assms
  by (cases buffer)
     (simp_all add: Files_read_def new_request_def new_FileRequest_def submitted_call_def
        submitted_request_def Let_def)

text \<open>
  C2 fails on the code. A read of 10 bytes to offset 4 of the destination is submitted
  with a scratch buffer of 6 bytes, and the engine is told to store up to 10 bytes in
  it.
\<close>

theorem read_scratch_size_10_at_4:
  "map_option (\<lambda>rq. map_option alloc (byte_array rq))
     (submitted_request (Files_read garbage out vm 3 (Some a) 10 4 0 7 99)) = Some (Some 6)
   \<and> submitted_call (Files_read garbage out vm 3 (Some a) 10 4 0 7 99) =
       Some (Uv_fs_read 3 (Some (new_jbyte_array garbage 6)) 10 0)"
  by (simp add: Files_read_def new_request_def new_FileRequest_def submitted_request_def
        submitted_call_def new_jbyte_array_def Let_def)

text \<open>
  C3, as amended. A read completes with a non-negative byte count \<open>n\<close> that is at
  most the size the scratch buffer was allocated with, and the destination array
  \<open>dst\<close> is alive and has room for \<open>n\<close> bytes at the destination offset. Then the
  hook makes one call, of the array-valued callback, with the pair of the boxed long
  \<open>n\<close> and the destination array, into which the first \<open>n\<close> scratch bytes have been
  copied at the destination offset; it then cleans up, and the destructor gives the
  global reference back.
\<close>

theorem read_completion_pair:
  assumes "req_data req = Some request" and "callback_ptr request \<noteq> 0"
    and "req_fs_type req = UV_FS_READ" and "read_buffer request = Some a"
    and "heap vm a = Some dst" and "length dst < 2 ^ 31"
    and "0 \<le> sint (read_buffer_offset request)" and "0 \<le> sint (req_result req)"
    and "sint (read_buffer_offset request) + sint (req_result req) \<le> int (length dst)"
    and "nat (sint (req_result req)) \<le> scratch_size request"
  shows "fs_cb_hook b vm req =
      Inr (vm\<lparr>heap := (heap vm)(a \<mapsto>
                 take (nat (sint (read_buffer_offset request))) dst
                 @ scratch_prefix request (nat (sint (req_result req)))
                 @ drop (nat (sint (read_buffer_offset request)) + nat (sint (req_result req)))
                     dst),
               global_refs := remove1 a (global_refs vm),
               trace := trace vm @
                 [Callback_narg (callback_ptr request) UV_FS_READ (callback_id request)
                    (JObjectArray [JLong (req_result req), JByteArray a]),
                  Uv_fs_req_cleanup, Delete_req, Delete_FileRequest (callback_id request)]\<rparr>)"
proof -
  have off: "sint (to_jsize (read_buffer_offset request)) = sint (read_buffer_offset request)"
    using assms by (intro sint_to_jsize) auto
  have n: "sint (to_jsize (req_result req)) = sint (req_result req)"
    using assms by (intro sint_to_jsize) auto
  have ne: "req_result req \<noteq> - 1"
    using assms(8) by auto
  have fits: "nat (sint (to_jsize (req_result req)))
      \<le> (case byte_array request of None \<Rightarrow> 0 | Some b \<Rightarrow> alloc b)"
    using assms(10) n by (simp add: scratch_size_def)
  have bytes: "(case byte_array request of
                  None \<Rightarrow> []
                | Some b \<Rightarrow> map (bytes b) [0..<nat (sint (req_result req))]) =
      scratch_prefix request (nat (sint (req_result req)))"
    using assms(10) by (auto simp: scratch_prefix_def scratch_size_def split: option.splits)
  have "SetByteArrayRegion vm (Some a) (to_jsize (read_buffer_offset request))
          (to_jsize (req_result req)) (byte_array request) =
      Inr (vm\<lparr>heap := (heap vm)(a \<mapsto>
             take (nat (sint (to_jsize (read_buffer_offset request)))) dst
           @ (case byte_array request of
                None \<Rightarrow> []
              | Some b \<Rightarrow> map (bytes b) [0..<nat (sint (to_jsize (req_result req)))])
           @ drop (nat (sint (to_jsize (read_buffer_offset request)))
                   + nat (sint (to_jsize (req_result req)))) dst)\<rparr>)"
    by (rule SetByteArrayRegion_in_range) (use assms(5,7,8,9) fits off n in auto)
  then have "SetByteArrayRegion vm (Some a) (to_jsize (read_buffer_offset request))
          (to_jsize (req_result req)) (byte_array request) =
      Inr (vm\<lparr>heap := (heap vm)(a \<mapsto> take (nat (sint (read_buffer_offset request))) dst
           @ scratch_prefix request (nat (sint (req_result req)))
           @ drop (nat (sint (read_buffer_offset request)) + nat (sint (req_result req))) dst)\<rparr>)"
    unfolding off n bytes .
  then have commit: "get_array_region_from_bytes vm request (to_jsize (req_result req)) =
      Inr (vm\<lparr>heap := (heap vm)(a \<mapsto> take (nat (sint (read_buffer_offset request))) dst
           @ scratch_prefix request (nat (sint (req_result req)))
           @ drop (nat (sint (read_buffer_offset request)) + nat (sint (req_result req))) dst)\<rparr>,
           JByteArray a)"
    using assms(4) by (simp add: get_array_region_from_bytes_def)
  show ?thesis
    using assms(1-4) ne
    by (simp add: fs_cb_hook_def fs_cb_def fs_cb_switch_def commit CallVoidMethod_narg_def
          uv_fs_req_cleanup_def delete_req_def delete_FileRequest_def Let_def)
qed

text \<open>
  Three bytes \<open>h\<close>, \<open>i\<close>, \<open>j\<close> of a four-byte scratch buffer read into a five-byte
  array at offset 1.
\<close>

theorem read_completion_pair_witness:
  "fs_cb_hook \<lparr>ndebug = False, posix = True\<rparr>
     \<lparr>heap = (\<lambda>_. None)(0 \<mapsto> [0, 0, 0, 0, 0]), global_refs = [0], pending = None, trace = []\<rparr>
     \<lparr>req_data = Some \<lparr>callback_ptr = 99, callback_id = 7, read_buffer_offset = 1,
                        read_buffer = Some 0,
                        byte_array = Some \<lparr>alloc = 4, bytes = (\<lambda>i. of_nat i + 104)\<rparr>\<rparr>,
      req_fs_type = UV_FS_READ, req_result = 3, req_errorno = 0, req_path = None,
      req_ptr = NullPtr\<rparr> =
   Inr \<lparr>heap = (\<lambda>_. None)(0 \<mapsto> [0, 104, 105, 106, 0]), global_refs = [], pending = None,
        trace = [Callback_narg 99 UV_FS_READ 7 (JObjectArray [JLong 3, JByteArray 0]),
                 Uv_fs_req_cleanup, Delete_req, Delete_FileRequest 7]\<rparr>"
proof -
  let ?request = "\<lparr>callback_ptr = 99, callback_id = 7, read_buffer_offset = 1,
                   read_buffer = Some 0,
                   byte_array = Some \<lparr>alloc = 4, bytes = (\<lambda>i. of_nat i + 104)\<rparr>\<rparr>"
  let ?req = "\<lparr>req_data = Some ?request, req_fs_type = UV_FS_READ, req_result = 3,
               req_errorno = 0, req_path = None, req_ptr = NullPtr\<rparr>"
  let ?vm = "\<lparr>heap = (\<lambda>_. None)(0 \<mapsto> [0, 0, 0, 0, 0 :: jbyte]), global_refs = [0 :: nat],
              pending = None, trace = []\<rparr>"
  have "req_data ?req = Some ?request" and "callback_ptr ?request \<noteq> 0"
    and "req_fs_type ?req = UV_FS_READ" and "read_buffer ?request = Some 0"
    and "heap ?vm 0 = Some [0, 0, 0, 0, 0]" and "length [0, 0, 0, 0, 0 :: jbyte] < 2 ^ 31"
    and "0 \<le> sint (read_buffer_offset ?request)" and "0 \<le> sint (req_result ?req)"
    and "sint (read_buffer_offset ?request) + sint (req_result ?req)
           \<le> int (length [0, 0, 0, 0, 0 :: jbyte])"
    and "nat (sint (req_result ?req)) \<le> scratch_size ?request"
    by (simp_all add: scratch_size_def)
  from read_completion_pair [OF this, where b = "\<lparr>ndebug = False, posix = True\<rparr>"]
  show ?thesis
    by (simp add: scratch_prefix_def upt_rec)
qed

text \<open>
  C3 as stated fails for a count that does not fit the destination. An asynchronous
  read of 10 bytes into a five-byte array at offset 0 completes with 10 bytes in its
  ten-byte scratch buffer: \<^verbatim>\<open>SetByteArrayRegion\<close> refuses the region and copies
  nothing, and the callback still gets the pair of the boxed long 10 and the array,
  whose five bytes are what they were.
\<close>

theorem read_completion_count_outside_destination:
  "fs_cb_hook \<lparr>ndebug = False, posix = True\<rparr>
     \<lparr>heap = (\<lambda>_. None)(0 \<mapsto> [0, 0, 0, 0, 0]), global_refs = [0], pending = None, trace = []\<rparr>
     \<lparr>req_data = Some \<lparr>callback_ptr = 99, callback_id = 7, read_buffer_offset = 0,
                        read_buffer = Some 0,
                        byte_array = Some \<lparr>alloc = 10, bytes = (\<lambda>i. of_nat i + 104)\<rparr>\<rparr>,
      req_fs_type = UV_FS_READ, req_result = 10, req_errorno = 0, req_path = None,
      req_ptr = NullPtr\<rparr> =
   Inr \<lparr>heap = (\<lambda>_. None)(0 \<mapsto> [0, 0, 0, 0, 0]), global_refs = [],
        pending = Some ArrayIndexOutOfBoundsException,
        trace = [Callback_narg 99 UV_FS_READ 7 (JObjectArray [JLong 10, JByteArray 0]),
                 Uv_fs_req_cleanup, Delete_req, Delete_FileRequest 7]\<rparr>"
proof -
  have "sint (to_jsize 10) = 10" and "sint (to_jsize 0) = 0"
    by (simp_all add: to_jsize_def)
  then show ?thesis
    by (simp add: fs_cb_hook_def fs_cb_def fs_cb_switch_def get_array_region_from_bytes_def
          SetByteArrayRegion_def CallVoidMethod_narg_def uv_fs_req_cleanup_def delete_req_def
          delete_FileRequest_def)
qed

text \<open>
  A count above the size of the scratch buffer is what the request that \<^verbatim>\<open>_read\<close>
  makes for 10 bytes at offset 4 meets when all 10 bytes are read: its scratch buffer
  has 6 bytes, and the copy of 10 bytes reads past its end.
\<close>

lemma read_completion_past_scratch:
  "fs_cb_hook b
     \<lparr>heap = (\<lambda>_. None)(0 \<mapsto> replicate 14 0), global_refs = [0], pending = None, trace = []\<rparr>
     (completion
        \<lparr>callback_ptr = 99, callback_id = 7, read_buffer_offset = 4, read_buffer = Some 0,
         byte_array = Some (new_jbyte_array garbage 6)\<rparr>
        (Uv_fs_read 3 (Some (new_jbyte_array garbage 6)) 10 0) 10 0 NullPtr) =
   Inl OutOfBounds"
proof -
  have "sint (to_jsize 10) = 10" and "sint (to_jsize 4) = 4" and "to_jsize 10 \<noteq> 0"
    by (simp_all add: to_jsize_def)
  then show ?thesis
    by (simp add: fs_cb_hook_def completion_def fs_type_of_def fs_cb_def fs_cb_switch_def
          get_array_region_from_bytes_def SetByteArrayRegion_def new_jbyte_array_def)
qed

subsection \<open>The synchronous read\<close>

text \<open>
  The blocking branch of \<^verbatim>\<open>_read\<close> at offset 0, for a destination array that is
  alive and has at least \<open>len\<close> bytes, and an engine that stores at most \<open>len\<close>
  bytes: the first \<open>len\<close> bytes of the destination are overwritten with the transient
  buffer, whatever the native read returned and however few bytes it stored; only
  afterwards is the return code looked at and, if negative, the error thrown.
\<close>

lemma blocking_read_overwrites:
  assumes "heap vm a = Some dst" and "length dst < 2 ^ 31"
    and "0 \<le> sint len" and "sint len \<le> int (length dst)"
    and "length (sync_stored out) \<le> nat (sint len)"
  shows "Files_read garbage out vm fd (Some a) len 0 position 0 cbp =
      Inr (vm\<lparr>heap := (heap vm)(a \<mapsto>
                 map (bytes (engine_store (sync_stored out)
                          (new_jbyte_array garbage (nat (sint len)))))
                     [0..<nat (sint len)]
                 @ drop (nat (sint len)) dst),
               trace := trace vm @ [Uv_fs_req_cleanup],
               pending := (if sint (sync_r out) < 0
                           then Some (UvException (last_error out) (Some ''uv_fs_read'') None None)
                           else pending vm)\<rparr>,
           Returned (sync_r out))"
proof -
  have n: "sint (to_jsize len) = sint len"
    using assms by (intro sint_to_jsize) auto
  have zero: "sint (to_jsize 0) = 0"
    by (simp add: to_jsize_def)
  have copy: "SetByteArrayRegion vm (Some a) (to_jsize 0) (to_jsize len) (Some buf) =
      Inr (vm\<lparr>heap := (heap vm)(a \<mapsto> map (bytes buf) [0..<nat (sint len)]
             @ drop (nat (sint len)) dst)\<rparr>)" if "nat (sint len) \<le> alloc buf" for buf
    using assms that n zero by (simp add: SetByteArrayRegion_in_range)
  have held: "nat (sint len) \<le> alloc (engine_store (sync_stored out)
      (new_jbyte_array garbage (nat (sint len))))"
    by (simp add: engine_store_def new_jbyte_array_def)
  have size: "alloc (new_jbyte_array garbage (nat (sint len))) = nat (sint len)"
    by (simp add: new_jbyte_array_def)
  show ?thesis
    using assms(3,5)
    by (simp add: Files_read_def copy [OF held] size Let_def uv_fs_req_cleanup_def
          ThrowException_def NewException_def)
qed

text \<open>
  A blocking read of three bytes to offset 0 that fails with code 9 and stores
  nothing: the three bytes of the destination are replaced by what the fresh transient
  buffer held (170 here), and the error is thrown.
\<close>

lemma blocking_read_overwrites_on_failure:
  "Files_read (\<lambda>_. 170)
     \<lparr>sync_r = - 1, sync_result = - 1, sync_ptr = NullPtr, sync_stored = [], last_error = 9\<rparr>
     \<lparr>heap = (\<lambda>_. None)(0 \<mapsto> [1, 2, 3, 4, 5]), global_refs = [], pending = None, trace = []\<rparr>
     3 (Some 0) 3 0 0 0 0 =
   Inr (\<lparr>heap = (\<lambda>_. None)(0 \<mapsto> [170, 170, 170, 4, 5]), global_refs = [],
         pending = Some (UvException 9 (Some ''uv_fs_read'') None None),
         trace = [Uv_fs_req_cleanup]\<rparr>, Returned (- 1))"
proof -
  let ?vm = "\<lparr>heap = (\<lambda>_. None)(0 \<mapsto> [1, 2, 3, 4, 5 :: jbyte]), global_refs = [] :: nat list,
              pending = None, trace = []\<rparr>"
  let ?out = "\<lparr>sync_r = - 1, sync_result = - 1, sync_ptr = NullPtr, sync_stored = [],
               last_error = 9\<rparr>"
  have "heap ?vm 0 = Some [1, 2, 3, 4, 5]" and "length [1, 2, 3, 4, 5 :: jbyte] < 2 ^ 31"
    and "0 \<le> sint (3 :: jlong)" and "sint (3 :: jlong) \<le> int (length [1, 2, 3, 4, 5 :: jbyte])"
    and "length (sync_stored ?out) \<le> nat (sint (3 :: jlong))"
    by simp_all
  from blocking_read_overwrites [OF this, where garbage = "\<lambda>_. 170" and fd = 3 and position = 0
      and cbp = 0]
  show ?thesis
    by (simp add: upt_rec engine_store_def new_jbyte_array_def)
qed

text \<open>
  At an offset above 0 the transient buffer has fewer than \<open>len\<close> bytes, and the
  copy of \<open>len\<close> bytes from it (or before it the engine's store) goes past its end.
\<close>

lemma blocking_read_past_transient:
  assumes "heap vm a = Some dst" and "length dst < 2 ^ 31"
    and "0 < sint offset" and "sint offset \<le> sint len"
    and "sint offset + sint len \<le> int (length dst)"
  shows "Files_read garbage out vm fd (Some a) len offset position 0 cbp = Inl OutOfBounds"
proof -
  have off: "sint (to_jsize offset) = sint offset"
    using assms by (intro sint_to_jsize) auto
  have n: "sint (to_jsize len) = sint len"
    using assms by (intro sint_to_jsize) auto
  have size: "sint (len - offset) = sint len - sint offset"
    using assms by (intro sint_minus_jlong) auto
  have "sint (to_jsize len) \<noteq> 0"
    using assms n by simp
  then have ne: "to_jsize len \<noteq> 0"
    by auto
  show ?thesis
    using assms off n ne
    by (simp add: Files_read_def size Let_def SetByteArrayRegion_def new_jbyte_array_def
          engine_store_def)
qed

text \<open>
  C10 fails on the code. A blocking read of 2 bytes to offset 3 of a five-byte
  destination asks for the region of 2 bytes at offset 3, which is inside the
  destination; the transient buffer is allocated with \<open>len - offset = - 1\<close> bytes,
  \<^verbatim>\<open>new\<close> throws, and the region is never written.
\<close>

theorem blocking_read_2_at_3:
  "Files_read garbage out
     \<lparr>heap = (\<lambda>_. None)(0 \<mapsto> [1, 2, 3, 4, 5]), global_refs = [], pending = None, trace = []\<rparr>
     3 (Some 0) 2 3 0 0 cbp = Inl BadAlloc"
  by (simp add: Files_read_def)

subsection \<open>The completion hook\<close>

text \<open>
  C9. For a request with its \<^verbatim>\<open>FileRequest\<close> and callback pointer in place, the
  hook takes the error overload exactly when the result is -1; any other result,
  negative ones included, goes to the success overload with that result, and for a
  read the success overload commits the buffer with the result, cast to
  \<^verbatim>\<open>jsize\<close>, as the byte count.
\<close>

theorem completion_classification:
  assumes "req_data req = Some request" and "callback_ptr request \<noteq> 0"
  shows "(req_result req = - 1 \<longrightarrow>
            fs_cb_hook b vm req =
              Inr (delete_FileRequest (delete_req (uv_fs_req_cleanup
                     (fs_cb_error vm (callback_ptr request) request (req_fs_type req)
                        (req_errorno req) (req_path req)))) request))
       \<and> (req_result req \<noteq> - 1 \<longrightarrow>
            fs_cb_hook b vm req =
              (case fs_cb b vm (callback_ptr request) request (req_fs_type req) (req_result req)
                      (req_ptr req) of
                 Inl f \<Rightarrow> Inl f
               | Inr vm1 \<Rightarrow>
                   Inr (delete_FileRequest (delete_req (uv_fs_req_cleanup vm1)) request)))
       \<and> fs_cb b vm (callback_ptr request) request UV_FS_READ (req_result req) (req_ptr req) =
            (case get_array_region_from_bytes vm request (to_jsize (req_result req)) of
               Inl f \<Rightarrow> Inl f
             | Inr (vm1, buf) \<Rightarrow>
                 Inr (CallVoidMethod_narg vm1 (callback_ptr request) UV_FS_READ
                        (callback_id request) (JObjectArray [JLong (req_result req), buf])))"
  using assms
  by (simp add: fs_cb_hook_def fs_cb_def fs_cb_switch_def Let_def split: sum.splits)

text \<open>
  A read that completes with result -2: the success overload runs, the commit is asked
  for -2 bytes (which the JVM refuses), and the callback gets the pair of the boxed
  long -2 and the buffer, not the error pair.
\<close>

theorem completion_classification_witness:
  "fs_cb_hook \<lparr>ndebug = False, posix = True\<rparr>
     \<lparr>heap = (\<lambda>_. None)(0 \<mapsto> [0, 0, 0]), global_refs = [0], pending = None, trace = []\<rparr>
     \<lparr>req_data = Some \<lparr>callback_ptr = 99, callback_id = 7, read_buffer_offset = 0,
                        read_buffer = Some 0,
                        byte_array = Some \<lparr>alloc = 3, bytes = (\<lambda>_. 0)\<rparr>\<rparr>,
      req_fs_type = UV_FS_READ, req_result = - 2, req_errorno = 0, req_path = None,
      req_ptr = NullPtr\<rparr> =
   Inr \<lparr>heap = (\<lambda>_. None)(0 \<mapsto> [0, 0, 0]), global_refs = [],
        pending = Some ArrayIndexOutOfBoundsException,
        trace = [Callback_narg 99 UV_FS_READ 7 (JObjectArray [JLong (- 2), JByteArray 0]),
                 Uv_fs_req_cleanup, Delete_req, Delete_FileRequest 7]\<rparr>"
proof -
  let ?request = "\<lparr>callback_ptr = 99, callback_id = 7, read_buffer_offset = 0,
                   read_buffer = Some 0, byte_array = Some \<lparr>alloc = 3, bytes = (\<lambda>_. 0)\<rparr>\<rparr>"
  let ?req = "\<lparr>req_data = Some ?request, req_fs_type = UV_FS_READ, req_result = - 2,
               req_errorno = 0, req_path = None, req_ptr = NullPtr\<rparr>"
  have len: "sint (to_jsize (- 2)) = - 2"
    by (simp add: to_jsize_def)
  have "req_data ?req = Some ?request" and "callback_ptr ?request \<noteq> 0"
    by simp_all
  from completion_classification [OF this, where b = "\<lparr>ndebug = False, posix = True\<rparr>"
      and vm = "\<lparr>heap = (\<lambda>_. None)(0 \<mapsto> [0, 0, 0]), global_refs = [0], pending = None,
                 trace = []\<rparr>"]
  show ?thesis
    by (simp add: get_array_region_from_bytes_def SetByteArrayRegion_def len
          CallVoidMethod_narg_def uv_fs_req_cleanup_def delete_req_def delete_FileRequest_def)
qed

text \<open>
  C4, as amended. When the result of a completion is -1 (and the request carries its
  \<^verbatim>\<open>FileRequest\<close> and callback pointer), the hook makes one call, of the
  array-valued callback, with a two-element array: the boxed integer -1, and an error
  object built from the native error code and the path of the request if it has one.
  The name and message arguments of \<^verbatim>\<open>NewException\<close> are null: the operation is
  told to the callback by its kind, a separate argument. The request is then disposed.
\<close>

theorem failure_completion_shape:
  assumes "req_data req = Some request" and "callback_ptr request \<noteq> 0"
    and "req_result req = - 1"
  shows "fs_cb_hook b vm req =
     Inr (vm\<lparr>global_refs := (case read_buffer request of
                                None \<Rightarrow> global_refs vm
                              | Some r \<Rightarrow> remove1 r (global_refs vm)),
              trace := trace vm @
                [Callback_narg (callback_ptr request) (req_fs_type req) (callback_id request)
                   (JObjectArray [JInteger (- 1),
                      JThrowable (UvException (req_errorno req) None None (req_path req))]),
                 Uv_fs_req_cleanup, Delete_req, Delete_FileRequest (callback_id request)]\<rparr>)"
  using assms
  by (simp add: fs_cb_hook_def fs_cb_error_def NewException_def Let_def CallVoidMethod_narg_def
        uv_fs_req_cleanup_def delete_req_def delete_FileRequest_def split: option.splits)

text \<open>An \<^verbatim>\<open>open\<close> of the path \<open>missing\<close> that fails with code 34.\<close>

theorem failure_completion_shape_witness:
  "fs_cb_hook \<lparr>ndebug = False, posix = True\<rparr>
     \<lparr>heap = (\<lambda>_. None), global_refs = [], pending = None, trace = []\<rparr>
     \<lparr>req_data = Some \<lparr>callback_ptr = 99, callback_id = 7, read_buffer_offset = 0,
                        read_buffer = None, byte_array = None\<rparr>,
      req_fs_type = UV_FS_OPEN, req_result = - 1, req_errorno = 34, req_path = Some ''missing'',
      req_ptr = NullPtr\<rparr> =
   Inr \<lparr>heap = (\<lambda>_. None), global_refs = [], pending = None,
        trace = [Callback_narg 99 UV_FS_OPEN 7
                   (JObjectArray [JInteger (- 1),
                      JThrowable (UvException 34 None None (Some ''missing''))]),
                 Uv_fs_req_cleanup, Delete_req, Delete_FileRequest 7]\<rparr>"
proof -
  let ?request = "\<lparr>callback_ptr = 99, callback_id = 7, read_buffer_offset = 0,
                   read_buffer = None, byte_array = None\<rparr>"
  let ?req = "\<lparr>req_data = Some ?request, req_fs_type = UV_FS_OPEN, req_result = - 1,
               req_errorno = 34, req_path = Some ''missing'', req_ptr = NullPtr\<rparr>"
  have "req_data ?req = Some ?request" and "callback_ptr ?request \<noteq> 0"
    and "req_result ?req = - 1"
    by simp_all
  from failure_completion_shape [OF this, where b = "\<lparr>ndebug = False, posix = True\<rparr>"
      and vm = "\<lparr>heap = (\<lambda>_. None), global_refs = [], pending = None, trace = []\<rparr>"]
  show ?thesis
    by simp
qed

text \<open>
  C4 as stated fails there: the error object delivered for the failed \<^verbatim>\<open>open\<close> is
  not the one built with the operation name, which the blocking branch of
  \<^verbatim>\<open>_open\<close> throws for the same failure.
\<close>

theorem failure_completion_without_operation_name:
  "fs_cb_error \<lparr>heap = (\<lambda>_. None), global_refs = [], pending = None, trace = []\<rparr> 99
     \<lparr>callback_ptr = 99, callback_id = 7, read_buffer_offset = 0, read_buffer = None,
      byte_array = None\<rparr> UV_FS_OPEN 34 (Some ''missing'') \<noteq>
   CallVoidMethod_narg \<lparr>heap = (\<lambda>_. None), global_refs = [], pending = None, trace = []\<rparr> 99
     UV_FS_OPEN 7
     (JObjectArray [JInteger (- 1),
        JThrowable (NewException 34 (Some ''uv_fs_open'') None (Some ''missing''))])"
  by (simp add: fs_cb_error_def CallVoidMethod_narg_def NewException_def)

subsection \<open>Directory listings\<close>

text \<open>
  The loop started at entry \<open>k\<close> and position \<open>length pre\<close> of a buffer that holds,
  from there on, the NUL-terminated names \<open>ns\<close>: it stores the names at entries
  \<open>k\<close>, \<open>k + 1\<close>, ... and stops just after the terminator of the last one.
\<close>

lemma readdir_loop_names:
  assumes "\<forall>s \<in> set ns. CHR 0x00 \<notin> set s"
    and "k + length ns \<le> length names"
  shows "readdir_loop (Some (pre @ concat (map (\<lambda>s. s @ [CHR 0x00]) ns) @ rest))
           (int k + int (length ns)) (int k) (length pre) names =
         Inr (take k names @ map JString ns @ drop (k + length ns) names,
              length pre + length (concat (map (\<lambda>s. s @ [CHR 0x00]) ns)))"
  using assms
proof (induction ns arbitrary: k pre names)
  case Nil
  then show ?case
    by (simp add: readdir_loop.simps)
next
  case (Cons s ss)
  define buf where "buf = pre @ concat (map (\<lambda>s. s @ [CHR 0x00]) (s # ss)) @ rest"
  have nul: "CHR 0x00 \<notin> set s"
    using Cons.prems by simp
  have str: "c_string_at buf (length pre) = Inr s"
    using nul by (auto simp: buf_def c_string_at_def takeWhile_tail)
  have split: "buf = (pre @ s @ [CHR 0x00]) @ concat (map (\<lambda>s. s @ [CHR 0x00]) ss) @ rest"
    by (simp add: buf_def)
  have step: "readdir_loop (Some buf) (int k + int (length (s # ss))) (int k) (length pre) names =
      readdir_loop (Some buf) (int (Suc k) + int (length ss)) (int (Suc k))
        (length (pre @ s @ [CHR 0x00])) (names[k := JString s])"
    by (subst readdir_loop.simps) (simp add: str ac_simps)
  have ih: "readdir_loop (Some buf) (int (Suc k) + int (length ss)) (int (Suc k))
        (length (pre @ s @ [CHR 0x00])) (names[k := JString s]) =
      Inr (take (Suc k) (names[k := JString s]) @ map JString ss
             @ drop (Suc k + length ss) (names[k := JString s]),
           length (pre @ s @ [CHR 0x00]) + length (concat (map (\<lambda>s. s @ [CHR 0x00]) ss)))"
    unfolding split using Cons.prems by (intro Cons.IH) auto
  have k: "k < length names"
    using Cons.prems by simp
  have arr: "take (Suc k) (names[k := JString s]) @ map JString ss
             @ drop (Suc k + length ss) (names[k := JString s]) =
        take k names @ map JString (s # ss) @ drop (k + length (s # ss)) names"
    using k by (simp add: take_Suc_conv_app_nth)
  show ?case
    unfolding buf_def [symmetric] step ih arr by simp
qed

text \<open>
  C5. The result of a \<^verbatim>\<open>readdir\<close> is the count \<open>N = length ns\<close> and a buffer that
  starts with the \<open>N\<close> names \<open>ns\<close>, each followed by its NUL, and goes on with any
  \<open>rest\<close>. Then the loop fills an array of \<open>N\<close> entries with the names in order and
  ends with the buffer pointer just past the \<open>N\<close>-th terminator, so nothing of
  \<open>rest\<close> is read; \<^verbatim>\<open>fs_cb\<close> hands that array to the array-valued callback in one
  call, and the blocking branch of \<^verbatim>\<open>_readdir\<close> returns it.
\<close>

theorem readdir_names_delivered:
  assumes "\<forall>s \<in> set ns. CHR 0x00 \<notin> set s"
    and "length ns < 2 ^ 31" and "sint result = int (length ns)"
  shows "readdir_loop (Some (concat (map (\<lambda>s. s @ [CHR 0x00]) ns) @ rest))
           (sint (to_jsize result)) 0 0 (replicate (nat (sint (to_jsize result))) JNull) =
         Inr (map JString ns, length (concat (map (\<lambda>s. s @ [CHR 0x00]) ns)))
       \<and> fs_cb b vm this request UV_FS_READDIR result
           (CharPtr (concat (map (\<lambda>s. s @ [CHR 0x00]) ns) @ rest)) =
         Inr (vm\<lparr>trace := trace vm @
                [Callback_narg this UV_FS_READDIR (callback_id request)
                   (JObjectArray (map JString ns))]\<rparr>)
       \<and> (0 \<le> sint (sync_r out) \<and> sync_result out = result
            \<and> sync_ptr out = CharPtr (concat (map (\<lambda>s. s @ [CHR 0x00]) ns) @ rest) \<longrightarrow>
          Files_readdir out vm cpath flags 0 cbp =
            Inr (uv_fs_req_cleanup vm, Returned (JObjectArray (map JString ns))))"
proof -
  let ?buf = "concat (map (\<lambda>s. s @ [CHR 0x00]) ns) @ rest"
  have n: "sint (to_jsize result) = int (length ns)"
    using assms by (subst sint_to_jsize) auto
  have loop: "readdir_loop (Some ?buf) (int (length ns)) 0 0 (replicate (length ns) JNull) =
      Inr (map JString ns, length (concat (map (\<lambda>s. s @ [CHR 0x00]) ns)))"
    using readdir_loop_names [OF assms(1), where k = 0 and pre = "[]" and rest = rest
        and names = "replicate (length ns) JNull"]
    by simp
  have names: "readdir_names vm' result (CharPtr ?buf) = Inr (vm', JObjectArray (map JString ns))"
    for vm'
    by (simp add: readdir_names_def char_ptr_def n loop)
  show ?thesis
    by (simp add: n loop names fs_cb_def fs_cb_switch_def CallVoidMethod_narg_def
          Files_readdir_def)
qed

text \<open>
  Count 2 over the buffer \<open>a\<close> NUL \<open>b\<close> NUL \<open>c\<close> NUL: the callback gets \<open>a\<close> and
  \<open>b\<close>, and the loop stops at position 4, before \<open>c\<close>.
\<close>

theorem readdir_names_delivered_witness:
  "readdir_loop (Some [CHR ''a'', CHR 0x00, CHR ''b'', CHR 0x00, CHR ''c'', CHR 0x00]) 2 0 0
     (replicate 2 JNull) = Inr ([JString ''a'', JString ''b''], 4)
   \<and> fs_cb \<lparr>ndebug = False, posix = True\<rparr>
       \<lparr>heap = (\<lambda>_. None), global_refs = [], pending = None, trace = []\<rparr> 99
       \<lparr>callback_ptr = 99, callback_id = 7, read_buffer_offset = 0, read_buffer = None,
        byte_array = None\<rparr> UV_FS_READDIR 2
       (CharPtr [CHR ''a'', CHR 0x00, CHR ''b'', CHR 0x00, CHR ''c'', CHR 0x00]) =
     Inr \<lparr>heap = (\<lambda>_. None), global_refs = [], pending = None,
          trace = [Callback_narg 99 UV_FS_READDIR 7
                     (JObjectArray [JString ''a'', JString ''b''])]\<rparr>
   \<and> Files_readdir
       \<lparr>sync_r = 2, sync_result = 2,
        sync_ptr = CharPtr [CHR ''a'', CHR 0x00, CHR ''b'', CHR 0x00, CHR ''c'', CHR 0x00],
        sync_stored = [], last_error = 0\<rparr>
       \<lparr>heap = (\<lambda>_. None), global_refs = [], pending = None, trace = []\<rparr> ''d'' 0 0 0 =
     Inr (\<lparr>heap = (\<lambda>_. None), global_refs = [], pending = None, trace = [Uv_fs_req_cleanup]\<rparr>,
          Returned (JObjectArray [JString ''a'', JString ''b'']))"
proof -
  have "\<forall>s \<in> set [''a'', ''b'']. CHR 0x00 \<notin> set s"
    and "length [''a'', ''b''] < 2 ^ 31"
    and "sint (2 :: ssize_t) = int (length [''a'', ''b''])"
    by simp_all
  from readdir_names_delivered [OF this, where rest = "[CHR ''c'', CHR 0x00]"
      and b = "\<lparr>ndebug = False, posix = True\<rparr>"
      and vm = "\<lparr>heap = (\<lambda>_. None), global_refs = [], pending = None, trace = []\<rparr>"
      and this = 99 and cpath = "''d''" and flags = 0 and cbp = 0
      and out = "\<lparr>sync_r = 2, sync_result = 2,
                  sync_ptr = CharPtr [CHR ''a'', CHR 0x00, CHR ''b'', CHR 0x00, CHR ''c'',
                                      CHR 0x00],
                  sync_stored = [], last_error = 0\<rparr>"
      and request = "\<lparr>callback_ptr = 99, callback_id = 7, read_buffer_offset = 0,
                       read_buffer = None, byte_array = None\<rparr>"]
  moreover have "sint (to_jsize (2 :: ssize_t)) = 2"
    by (simp add: to_jsize_def)
  ultimately show ?thesis
    by (simp add: uv_fs_req_cleanup_def)
qed

subsection \<open>One callback per completion\<close>

lemma SetByteArrayRegion_trace:
  "SetByteArrayRegion vm array start len buf = Inr vm1 \<Longrightarrow> trace vm1 = trace vm"
  by (auto simp: SetByteArrayRegion_def split: option.splits if_splits)

lemma readdir_names_trace:
  "readdir_names vm result ptr = Inr (vm1, names) \<Longrightarrow> trace vm1 = trace vm"
  by (auto simp: readdir_names_def Let_def split: sum.splits if_splits prod.splits)

text \<open>
  Whenever the success overload of \<^verbatim>\<open>fs_cb\<close> returns, it has made exactly one
  call, of one of the two callbacks.
\<close>

lemma fs_cb_one_callback:
  assumes "fs_cb b vm this request fs_type result ptr = Inr vm1"
  shows "\<exists>ev. is_callback ev \<and> trace vm1 = trace vm @ [ev]"
proof (cases "fs_cb_switch b vm this request fs_type result ptr")
  case (Inl f)
  with assms show ?thesis
    by (simp add: fs_cb_def)
next
  case (Inr exit)
  show ?thesis
  proof (cases exit)
    case (Break arg)
    with Inr assms show ?thesis
      by (auto simp: fs_cb_def CallVoidMethod_1arg_def)
  next
    case (Return vm2)
    with Inr assms have vm2: "vm2 = vm1"
      by (simp add: fs_cb_def)
    from Inr Return have "\<exists>vm3 args. vm2 = CallVoidMethod_narg vm3 this fs_type
        (callback_id request) args \<and> trace vm3 = trace vm"
      by (cases fs_type)
         (auto simp: fs_cb_switch_def get_array_region_from_bytes_def
            dest: SetByteArrayRegion_trace readdir_names_trace
            split: sum.splits prod.splits if_splits)
    then show ?thesis
      unfolding vm2 by (auto simp: CallVoidMethod_narg_def)
  qed
qed

text \<open>
  Whenever the hook returns, what it did is one callback, then the cleanup of the
  native request, then the destructor of the \<^verbatim>\<open>FileRequest\<close>, once.
\<close>

lemma fs_cb_hook_one_callback_then_dispose:
  assumes "fs_cb_hook b vm req = Inr vm1"
  shows "\<exists>request ev. req_data req = Some request \<and> is_callback ev
           \<and> trace vm1 = trace vm @ [ev, Uv_fs_req_cleanup, Delete_req,
                                       Delete_FileRequest (callback_id request)]"
proof (cases "req_data req")
  case None
  with assms show ?thesis
    by (simp add: fs_cb_hook_def)
next
  case (Some request)
  show ?thesis
  proof (cases "req_result req = - 1")
    case True
    with Some assms show ?thesis
      by (auto simp: fs_cb_hook_def fs_cb_error_def CallVoidMethod_narg_def
            uv_fs_req_cleanup_def delete_req_def delete_FileRequest_def Let_def
            split: if_splits option.splits)
  next
    case False
    with Some assms obtain vm2 where
      cb: "fs_cb b vm (callback_ptr request) request (req_fs_type req) (req_result req)
             (req_ptr req) = Inr vm2"
      and vm1: "vm1 = delete_FileRequest (delete_req (uv_fs_req_cleanup vm2)) request"
      by (auto simp: fs_cb_hook_def Let_def split: if_splits sum.splits)
    from fs_cb_one_callback [OF cb] obtain ev where "is_callback ev"
      and "trace vm2 = trace vm @ [ev]"
      by blast
    with Some show ?thesis
      unfolding vm1
      by (auto simp: uv_fs_req_cleanup_def delete_req_def delete_FileRequest_def
            split: option.splits)
  qed
qed

text \<open>
  The hook does return, for a request with its \<^verbatim>\<open>FileRequest\<close> and callback
  pointer in place, on every failure completion and on every success completion of a
  kind whose case does not look at \<^verbatim>\<open>req->ptr\<close> or the buffers.
\<close>

lemma fs_cb_hook_returns:
  assumes "req_data req = Some request" and "callback_ptr request \<noteq> 0"
    and "req_result req = - 1 \<or> req_fs_type req \<in>
      {UV_FS_CLOSE, UV_FS_RENAME, UV_FS_UNLINK, UV_FS_RMDIR, UV_FS_MKDIR, UV_FS_FTRUNCATE,
       UV_FS_FSYNC, UV_FS_FDATASYNC, UV_FS_LINK, UV_FS_SYMLINK, UV_FS_CHMOD, UV_FS_FCHMOD,
       UV_FS_CHOWN, UV_FS_FCHOWN, UV_FS_OPEN, UV_FS_UTIME, UV_FS_FUTIME, UV_FS_WRITE}"
  shows "\<exists>vm1. fs_cb_hook b vm req = Inr vm1"
proof (cases "req_result req = - 1")
  case True
  with assms(1,2) show ?thesis
    by (simp add: fs_cb_hook_def Let_def)
next
  case False
  with assms(3) have "\<exists>arg. fs_cb_switch b vm (callback_ptr request) request (req_fs_type req)
      (req_result req) (req_ptr req) = Inr (Break arg)"
    by (auto simp: fs_cb_switch_def)
  with assms(1,2) False show ?thesis
    by (auto simp: fs_cb_hook_def fs_cb_def Let_def)
qed

text \<open>
  C1 fails on the code. \<^verbatim>\<open>_sendfile\<close> with a callback id submits a request with
  \<^verbatim>\<open>_fs_cb\<close> as its hook, but the \<^verbatim>\<open>switch\<close> of \<^verbatim>\<open>fs_cb\<close> has no case for
  \<^verbatim>\<open>UV_FS_SENDFILE\<close>: a transfer that completes with 5 bytes sent reaches
  \<^verbatim>\<open>assert(0)\<close>, so the hook does not return, no callback is invoked and the
  request is not disposed. With asserts compiled out the single-value callback is
  invoked with an argument that was never assigned.
\<close>

theorem sendfile_completion_unhandled:
  "Files_sendfile out vm 4 3 0 5 7 99 =
     Inr (vm, Submitted \<lparr>callback_ptr = 99, callback_id = 7, read_buffer_offset = 0,
                          read_buffer = None, byte_array = None\<rparr> (Uv_fs_sendfile 4 3 0 5))
   \<and> fs_cb_hook \<lparr>ndebug = False, posix = px\<rparr> vm
        (completion \<lparr>callback_ptr = 99, callback_id = 7, read_buffer_offset = 0,
                     read_buffer = None, byte_array = None\<rparr> (Uv_fs_sendfile 4 3 0 5) 5 0 NullPtr)
      = Inl AssertionFailed
   \<and> fs_cb_hook \<lparr>ndebug = True, posix = px\<rparr> vm
        (completion \<lparr>callback_ptr = 99, callback_id = 7, read_buffer_offset = 0,
                     read_buffer = None, byte_array = None\<rparr> (Uv_fs_sendfile 4 3 0 5) 5 0 NullPtr)
      = Inr (vm\<lparr>trace := trace vm @ [Callback_1arg 99 UV_FS_SENDFILE 7 JIndeterminate,
                                      Uv_fs_req_cleanup, Delete_req, Delete_FileRequest 7]\<rparr>)"
  by (simp add: Files_sendfile_def new_request0_def new_request_def new_FileRequest_def
        fs_cb_hook_def completion_def fs_type_of_def path_of_def fs_cb_def fs_cb_switch_def
        CallVoidMethod_1arg_def uv_fs_req_cleanup_def delete_req_def delete_FileRequest_def)

end
